theory Spec2Isabelle
  imports Main "HOL-Library.AList" "HOL-Library.Sublist"
begin

section \<open>Python values, exceptions and path names\<close>

text \<open>
  The values a configuration mapping or a JSON document holds. Floating point numbers are
  left out; dictionaries keep their insertion order.
\<close>

datatype pyval =
    PNone
  | PBool bool
  | PInt int
  | PStr string
  | PList "pyval list"
  | PDict "(string \<times> pyval) list"

text \<open>
  The exceptions that leave the module. \<open>OSError\<close> stands for every error of the
  local file system (\<open>IOError\<close>, \<open>FileNotFoundError\<close>, \<open>IsADirectoryError\<close>, ...),
  \<open>JSONDecodeError\<close> for the \<open>ValueError\<close> json.load raises, \<open>ReadError\<close> for
  tarfile.ReadError, \<open>ClientError\<close> for botocore's error on a missing key and
  \<open>NotFound\<close> for google.cloud's.
\<close>

datatype error =
    KeyError string
  | ValueError string
  | JSONDecodeError
  | TypeError
  | OSError
  | ReadError
  | ClientError
  | NotFound

type_synonym path = "string list"

text \<open>posixpath.basename: everything after the last slash.\<close>

definition basename :: "string \<Rightarrow> string" where
  "basename p = rev (takeWhile (\<lambda>c. c \<noteq> CHR ''/'') (rev p))"

text \<open>
  posixpath.dirname: everything up to the last slash, with the trailing slashes
  stripped unless the head consists of slashes only.
\<close>

definition dirname :: "string \<Rightarrow> string" where
  "dirname p =
     (let head = rev (dropWhile (\<lambda>c. c \<noteq> CHR ''/'') (rev p))
      in if head \<noteq> [] \<and> (\<exists>c \<in> set head. c \<noteq> CHR ''/'')
         then rev (dropWhile (\<lambda>c. c = CHR ''/'') (rev head))
         else head)"

text \<open>
  posixpath.splitext: the extension starts at the last dot of the last component,
  unless only dots precede it there.
\<close>

definition splitext :: "string \<Rightarrow> string \<times> string" where
  "splitext p =
     (let name = basename p;
          ext = rev (takeWhile (\<lambda>c. c \<noteq> CHR ''.'') (rev name));
          stem = take (length name - length ext - 1) name
      in if CHR ''.'' \<in> set name \<and> (\<exists>c \<in> set stem. c \<noteq> CHR ''.'')
         then (take (length p - length ext - 1) p, CHR ''.'' # ext)
         else (p, []))"

text \<open>posixpath.join of two names.\<close>

definition join :: "string \<Rightarrow> string \<Rightarrow> string" where
  "join a b =
     (if take 1 b = ''/'' then b
      else if a = [] \<or> last a = CHR ''/'' then a @ b
      else a @ ''/'' @ b)"

text \<open>str.join.\<close>

fun str_join :: "string \<Rightarrow> string list \<Rightarrow> string" where
  "str_join sep [] = []"
| "str_join sep [x] = x"
| "str_join sep (x # y # ys) = x @ sep @ str_join sep (y # ys)"

text \<open>The components of a name between its slashes.\<close>

fun split_slash :: "string \<Rightarrow> string list" where
  "split_slash [] = [[]]"
| "split_slash (c # cs) =
     (if c = CHR ''/'' then [] # split_slash cs
      else case split_slash cs of
             x # xs \<Rightarrow> (c # x) # xs
           | [] \<Rightarrow> [[c]])"

text \<open>
  A path of the file system is the list of its components below the root. Components
  are resolved lexically, as posixpath.normpath does: there are no symbolic links.
\<close>

fun norm_from :: "path \<Rightarrow> string list \<Rightarrow> path" where
  "norm_from acc [] = acc"
| "norm_from acc (c # cs) =
     (if c = [] \<or> c = ''.'' then norm_from acc cs
      else if c = ''..'' then norm_from (butlast acc) cs
      else norm_from (acc @ [c]) cs)"

text \<open>posixpath.abspath, relative to the working directory \<open>wd\<close>.\<close>

definition abspath :: "path \<Rightarrow> string \<Rightarrow> path" where
  "abspath wd s = norm_from (if take 1 s = ''/'' then [] else wd) (split_slash s)"

definition plain :: "string list \<Rightarrow> bool" where
  "plain cs = (\<forall>c \<in> set cs. c \<noteq> [] \<and> c \<noteq> ''.'' \<and> c \<noteq> ''..'')"

section \<open>The local file system and the remote stores\<close>

text \<open>
  The content of a regular file is kept up to the archive format, which is tarfile's:
  a gzip-compressed tar archive is the list of its members, each a relative name (as
  components) with a directory or a regular file; every other file is its bytes.
\<close>

datatype content =
    Bytes string
  | TarGz "(string list \<times> node) list"
and node =
    Dir
  | File content

type_synonym filesystem = "(path \<times> node) list"

text \<open>
  The file system lists what was written, newest first; a path holds what its first
  entry says. The root is a directory.
\<close>

definition lookup :: "filesystem \<Rightarrow> path \<Rightarrow> node option" where
  "lookup t p = (if p = [] then Some Dir else map_of t p)"

text \<open>The value of a field of a MongoDB document.\<close>

datatype bson =
    FVal pyval
  | FBinary content
  | FObjectId nat

type_synonym document = "(string \<times> bson) list"

text \<open>The requests sent to a remote store, in the order they were sent.\<close>

datatype remote_call =
    S3CreateBucket pyval
  | S3Put pyval string
  | S3Download pyval string
  | GCSCreateBucket pyval
  | GCSUpload pyval string
  | GCSDownload pyval string
  | MongoInsert pyval pyval
  | MongoFindOne pyval pyval

text \<open>
  Everything the module reads and writes: the working directory and the files of the
  process, the objects of the S3 and GCS buckets (by bucket and key), the documents
  of the MongoDB collections (by URI and collection name, in insertion order), and the
  requests made so far. The stores answer every request; failures of the transport are
  not part of the model.
\<close>

record world =
  cwd :: path
  fs :: filesystem
  s3 :: "pyval \<times> string \<Rightarrow> content option"
  gcs :: "pyval \<times> string \<Rightarrow> content option"
  mongo :: "pyval \<times> pyval \<Rightarrow> document list"
  calls :: "remote_call list"

text \<open>
  os.stat of a name: the empty name does not exist, and a name that ends in a slash
  or in a dot component names a directory only.
\<close>

definition stat :: "world \<Rightarrow> string \<Rightarrow> node option" where
  "stat w s =
     (if s = [] then None
      else case lookup (fs w) (abspath (cwd w) s) of
             Some (File c) \<Rightarrow>
               (if last (split_slash s) \<in> {[], ''.'', ''..''} then None else Some (File c))
           | r \<Rightarrow> r)"

definition isdir :: "world \<Rightarrow> string \<Rightarrow> bool" where
  "isdir w s = (stat w s = Some Dir)"

definition exists :: "world \<Rightarrow> string \<Rightarrow> bool" where
  "exists w s = (stat w s \<noteq> None)"

text \<open>Reading a whole file: open(name) or open(name, 'rb'), then read.\<close>

definition open_read :: "world \<Rightarrow> string \<Rightarrow> error + content" where
  "open_read w s = (case stat w s of Some (File c) \<Rightarrow> Inr c | _ \<Rightarrow> Inl OSError)"

text \<open>
  Writing a regular file at a path: its directory has to exist and the path must not
  be a directory.
\<close>

definition write_path :: "path \<Rightarrow> content \<Rightarrow> filesystem \<Rightarrow> error + filesystem" where
  "write_path p c t =
     (if p = [] \<or> lookup t p = Some Dir \<or> lookup t (butlast p) \<noteq> Some Dir then Inl OSError
      else Inr ((p, File c) # t))"

text \<open>open(name, 'w') or open(name, 'wb'), a write of the whole content, and close.\<close>

definition open_write :: "string \<Rightarrow> content \<Rightarrow> world \<Rightarrow> (error + unit) \<times> world" where
  "open_write s c w =
     (if last (split_slash s) \<in> {[], ''.'', ''..''} then (Inl OSError, w)
      else case write_path (abspath (cwd w) s) c (fs w) of
             Inl e \<Rightarrow> (Inl e, w)
           | Inr t \<Rightarrow> (Inr (), w\<lparr>fs := t\<rparr>))"

text \<open>
  Creating the listed directories where they are missing, outermost first; a regular
  file in the way is an error.
\<close>

fun mkdirs :: "path list \<Rightarrow> filesystem \<Rightarrow> error + filesystem" where
  "mkdirs [] t = Inr t"
| "mkdirs (q # qs) t =
     (case lookup t q of
        None \<Rightarrow> mkdirs qs ((q, Dir) # t)
      | Some Dir \<Rightarrow> mkdirs qs t
      | Some (File c) \<Rightarrow> Inl OSError)"

text \<open>os.makedirs: the leaf must not exist yet.\<close>

definition makedirs :: "string \<Rightarrow> world \<Rightarrow> (error + unit) \<times> world" where
  "makedirs s w =
     (if s = [] \<or> exists w s then (Inl OSError, w)
      else case mkdirs (prefixes (abspath (cwd w) s)) (fs w) of
             Inl e \<Rightarrow> (Inl e, w)
           | Inr t \<Rightarrow> (Inr (), w\<lparr>fs := t\<rparr>))"

section \<open>Archives\<close>

text \<open>
  shutil.make_archive(base_name, 'gztar', root_dir, base_dir), as CPython 3.11 does it:
  \<open>root_dir\<close> has to be a directory; the archive is the file \<open>base_name + '.tar.gz'\<close>,
  whose directory is created when it is missing; tarfile opens it for writing and adds
  \<open>join(root_dir, base_dir)\<close> with everything below it under the name \<open>base_dir\<close>,
  skipping the archive itself; the absolute name of the archive is returned.
  The members are listed in the order of the file system's entries.
\<close>

definition archive_members :: "filesystem \<Rightarrow> path \<Rightarrow> string list \<Rightarrow> path \<Rightarrow> (string list \<times> node) list" where
  "archive_members t src arc ap =
     map (\<lambda>(q, n). (arc @ drop (length src) q, n))
       (filter (\<lambda>(q, n). prefix src q \<and> q \<noteq> ap \<and> q \<noteq> []) (AList.clearjunk t))"

definition make_archive :: "string \<Rightarrow> string \<Rightarrow> string \<Rightarrow> world \<Rightarrow> (error + path) \<times> world" where
  "make_archive base_name root_dir base_dir w =
     (if \<not> isdir w root_dir then (Inl OSError, w)
      else
        let archive_name = base_name @ ''.tar.gz'';
            archive_dir = dirname archive_name
        in case (if archive_dir \<noteq> [] \<and> \<not> exists w archive_dir then makedirs archive_dir w
                 else (Inr (), w)) of
             (Inl e, w1) \<Rightarrow> (Inl e, w1)
           | (Inr _, w1) \<Rightarrow>
               (case open_write archive_name (TarGz []) w1 of
                  (Inl e, w2) \<Rightarrow> (Inl e, w2)
                | (Inr _, w2) \<Rightarrow>
                    let ap = abspath (cwd w2) archive_name;
                        src = join root_dir base_dir
                    in if \<not> exists w2 src then (Inl OSError, w2)
                       else
                         let members = archive_members (fs w2) (abspath (cwd w2) src)
                                         (filter (\<lambda>c. c \<noteq> []) (split_slash base_dir)) ap
                         in (Inr ap, w2\<lparr>fs := (ap, File (TarGz members)) # fs w2\<rparr>)))"

text \<open>
  tarfile's extraction of one member below the directory \<open>dest\<close>: the missing
  directories above the target are created first; a directory member is created unless
  the directory is there already; a file member replaces the regular file at its target.
\<close>

definition extract_member :: "path \<Rightarrow> string list \<times> node \<Rightarrow> filesystem \<Rightarrow> error + filesystem" where
  "extract_member dest m t =
     (let target = norm_from dest (fst m)
      in case mkdirs (prefixes (butlast target)) t of
           Inl e \<Rightarrow> Inl e
         | Inr t1 \<Rightarrow>
             (case snd m of
                Dir \<Rightarrow>
                  (case lookup t1 target of
                     None \<Rightarrow> Inr ((target, Dir) # t1)
                   | Some Dir \<Rightarrow> Inr t1
                   | Some (File c) \<Rightarrow> Inl OSError)
              | File c \<Rightarrow> write_path target c t1))"

text \<open>
  The members are extracted in their order; the first error ends the extraction and
  leaves what was extracted before it.
\<close>

fun extract_members :: "path \<Rightarrow> (string list \<times> node) list \<Rightarrow> filesystem \<Rightarrow> error option \<times> filesystem" where
  "extract_members dest [] t = (None, t)"
| "extract_members dest (m # ms) t =
     (case extract_member dest m t of
        Inl e \<Rightarrow> (Some e, t)
      | Inr t1 \<Rightarrow> extract_members dest ms t1)"

text \<open>
  \<open>with tarfile.open(filename, "r:gz") as tar: tar.extractall(data_dir)\<close>. A file
  that is no archive is a ReadError. The data directory is only used to build the
  targets of the members, where a value that is no text is a TypeError.
\<close>

definition extractall :: "string \<Rightarrow> pyval \<Rightarrow> world \<Rightarrow> (error + unit) \<times> world" where
  "extractall filename data_dir w =
     (case open_read w filename of
        Inl e \<Rightarrow> (Inl e, w)
      | Inr (Bytes b) \<Rightarrow> (Inl ReadError, w)
      | Inr (TarGz members) \<Rightarrow>
          (case data_dir of
             PStr d \<Rightarrow>
               (case extract_members (abspath (cwd w) d) members (fs w) of
                  (Some e, t) \<Rightarrow> (Inl e, w\<lparr>fs := t\<rparr>)
                | (None, t) \<Rightarrow> (Inr (), w\<lparr>fs := t\<rparr>))
           | _ \<Rightarrow> if members = [] then (Inr (), w) else (Inl TypeError, w)))"

section \<open>The persistors\<close>

text \<open>
  The fields the three classes keep. The clients they hold (\<open>self.s3\<close>,
  \<open>self.bucket\<close>, \<open>self.storage_client\<close>, \<open>self.collection\<close>) are the stores of the
  world, addressed by the bucket name, or by the URI and the collection name.
\<close>

record aws_persistor =
  aws_data_dir :: pyval
  aws_bucket_name :: pyval

record gcs_persistor =
  gcs_data_dir :: pyval
  gcs_bucket_name :: pyval

record mongodb_persistor =
  mongo_uri :: pyval
  collection_name :: pyval

datatype persistor =
    AWS aws_persistor
  | GCS gcs_persistor
  | MongoDB mongodb_persistor

text \<open>
  \<open>AWSPersistor.__init__\<close>: the bucket is created; the ClientError of a bucket that
  exists is swallowed.
\<close>

definition AWSPersistor :: "pyval \<Rightarrow> pyval \<Rightarrow> pyval \<Rightarrow> world \<Rightarrow> aws_persistor \<times> world" where
  "AWSPersistor data_dir aws_region bucket_name w =
     (\<lparr>aws_data_dir = data_dir, aws_bucket_name = bucket_name\<rparr>,
      w\<lparr>calls := calls w @ [S3CreateBucket bucket_name]\<rparr>)"

text \<open>\<open>GCSPersistor.__init__\<close>: likewise, with the Conflict of an existing bucket.\<close>

definition GCSPersistor :: "pyval \<Rightarrow> pyval \<Rightarrow> world \<Rightarrow> gcs_persistor \<times> world" where
  "GCSPersistor data_dir bucket_name w =
     (\<lparr>gcs_data_dir = data_dir, gcs_bucket_name = bucket_name\<rparr>,
      w\<lparr>calls := calls w @ [GCSCreateBucket bucket_name]\<rparr>)"

text \<open>\<open>MongoDBPersistor.__init__\<close>: the client connects on its first request.\<close>

definition MongoDBPersistor :: "pyval \<Rightarrow> pyval \<Rightarrow> world \<Rightarrow> mongodb_persistor \<times> world" where
  "MongoDBPersistor uri name w = (\<lparr>mongo_uri = uri, collection_name = name\<rparr>, w)"

text \<open>
  Modelled from the spec: RasaNLUConfig is defined in rasa_nlu.config; the spec calls it
  a configuration mapping, so it is a dictionary from setting names to values, with
  \<open>'storage' in config\<close> and \<open>config[key]\<close> those of a dictionary.
\<close>

type_synonym config = "string \<rightharpoonup> pyval"

definition getitem :: "config \<Rightarrow> string \<Rightarrow> error + pyval" where
  "getitem config key = (case config key of None \<Rightarrow> Inl (KeyError key) | Some v \<Rightarrow> Inr v)"

definition get_persistor :: "config \<Rightarrow> world \<Rightarrow> (error + persistor option) \<times> world" where
  "get_persistor config w =
     (if config ''storage'' = None then
        (Inl (KeyError (''No persistent storage specified. Supported values are ''
                          @ str_join '', '' [''aws'', ''gcs'', ''mongodb''])), w)
      else if getitem config ''storage'' = Inr (PStr ''aws'') then
        (case getitem config ''path'' of
           Inl e \<Rightarrow> (Inl e, w)
         | Inr data_dir \<Rightarrow>
             (case getitem config ''aws_region'' of
                Inl e \<Rightarrow> (Inl e, w)
              | Inr aws_region \<Rightarrow>
                  (case getitem config ''bucket_name'' of
                     Inl e \<Rightarrow> (Inl e, w)
                   | Inr bucket_name \<Rightarrow>
                       (let (p, w1) = AWSPersistor data_dir aws_region bucket_name w
                        in (Inr (Some (AWS p)), w1)))))
      else if getitem config ''storage'' = Inr (PStr ''gcs'') then
        (case getitem config ''path'' of
           Inl e \<Rightarrow> (Inl e, w)
         | Inr data_dir \<Rightarrow>
             (case getitem config ''bucket_name'' of
                Inl e \<Rightarrow> (Inl e, w)
              | Inr bucket_name \<Rightarrow>
                  (let (p, w1) = GCSPersistor data_dir bucket_name w
                   in (Inr (Some (GCS p)), w1))))
      else if getitem config ''storage'' = Inr (PStr ''mongodb'') then
        (case getitem config ''mongodb_uri'' of
           Inl e \<Rightarrow> (Inl e, w)
         | Inr mongodb_uri \<Rightarrow>
             (case getitem config ''collection_name'' of
                Inl e \<Rightarrow> (Inl e, w)
              | Inr collection \<Rightarrow>
                  (let (p, w1) = MongoDBPersistor mongodb_uri collection w
                   in (Inr (Some (MongoDB p)), w1))))
      else (Inr None, w))"

subsection \<open>The object stores\<close>

definition quoted :: "string \<Rightarrow> string" where
  "quoted s = [CHR 0x27] @ s @ [CHR 0x27]"

text \<open>
  \<open>'%r' % text\<close> in Python 3, for a text of printable characters: in single quotes, or
  in double quotes when it has a single quote and no double quote; backslashes and the
  enclosing quote are escaped.
\<close>

definition repr_text :: "string \<Rightarrow> string" where
  "repr_text s =
     (let q = (if CHR 0x27 \<in> set s \<and> CHR 0x22 \<notin> set s then CHR 0x22 else CHR 0x27)
      in [q] @ concat (map (\<lambda>c. if c = CHR 0x5C \<or> c = q then [CHR 0x5C, c] else [c]) s) @ [q])"

text \<open>open(tarname, 'rb') on the absolute name make_archive returned.\<close>

definition read_path :: "filesystem \<Rightarrow> path \<Rightarrow> error + content" where
  "read_path t p = (case lookup t p of Some (File c) \<Rightarrow> Inr c | _ \<Rightarrow> Inl OSError)"

text \<open>os.path.basename of an absolute name: its last component.\<close>

definition path_basename :: "path \<Rightarrow> string" where
  "path_basename p = (if p = [] then [] else last p)"

definition aws_save_tar :: "aws_persistor \<Rightarrow> string \<Rightarrow> world \<Rightarrow> (error + unit) \<times> world" where
  "aws_save_tar self target_dir w =
     (if \<not> isdir w target_dir then
        (Inl (ValueError (''Target directory '' @ quoted target_dir @ '' not found.'')), w)
      else
        let base_name = basename target_dir;
            base_dir = dirname target_dir
        in case make_archive base_name base_dir base_name w of
             (Inl e, w1) \<Rightarrow> (Inl e, w1)
           | (Inr tarname, w1) \<Rightarrow>
               let filekey = path_basename tarname
               in (case read_path (fs w1) tarname of
                     Inl e \<Rightarrow> (Inl e, w1)
                   | Inr body \<Rightarrow>
                       (Inr (), w1\<lparr>s3 := (s3 w1)((aws_bucket_name self, filekey) \<mapsto> body),
                                   calls := calls w1 @ [S3Put (aws_bucket_name self) filekey]\<rparr>)))"

text \<open>
  The local file is opened for writing, and so created or emptied, before the download
  is asked for.
\<close>

definition aws_fetch_and_extract :: "aws_persistor \<Rightarrow> string \<Rightarrow> world \<Rightarrow> (error + unit) \<times> world" where
  "aws_fetch_and_extract self filename w =
     (case open_write filename (Bytes []) w of
        (Inl e, w1) \<Rightarrow> (Inl e, w1)
      | (Inr _, w1) \<Rightarrow>
          let w2 = w1\<lparr>calls := calls w1 @ [S3Download (aws_bucket_name self) filename]\<rparr>
          in (case s3 w2 (aws_bucket_name self, filename) of
                None \<Rightarrow> (Inl ClientError, w2)
              | Some body \<Rightarrow>
                  extractall filename (aws_data_dir self)
                    (w2\<lparr>fs := (abspath (cwd w2) filename, File body) # fs w2\<rparr>)))"

definition gcs_save_tar :: "gcs_persistor \<Rightarrow> string \<Rightarrow> world \<Rightarrow> (error + unit) \<times> world" where
  "gcs_save_tar self target_dir w =
     (if \<not> isdir w target_dir then
        (Inl (ValueError (''target_dir '' @ repr_text target_dir @ '' not found.'')), w)
      else
        let base_name = basename target_dir;
            base_dir = dirname target_dir
        in case make_archive base_name base_dir base_name w of
             (Inl e, w1) \<Rightarrow> (Inl e, w1)
           | (Inr tarname, w1) \<Rightarrow>
               let filekey = path_basename tarname
               in (case read_path (fs w1) tarname of
                     Inl e \<Rightarrow> (Inl e, w1)
                   | Inr body \<Rightarrow>
                       (Inr (), w1\<lparr>gcs := (gcs w1)((gcs_bucket_name self, filekey) \<mapsto> body),
                                   calls := calls w1 @ [GCSUpload (gcs_bucket_name self) filekey]\<rparr>)))"

text \<open>
  \<open>blob.download_to_filename(filename)\<close> opens the file for writing and then downloads
  into it, as the client library of the time of this module does.
\<close>

definition gcs_fetch_and_extract :: "gcs_persistor \<Rightarrow> string \<Rightarrow> world \<Rightarrow> (error + unit) \<times> world" where
  "gcs_fetch_and_extract self filename w =
     (case open_write filename (Bytes []) w of
        (Inl e, w1) \<Rightarrow> (Inl e, w1)
      | (Inr _, w1) \<Rightarrow>
          let w2 = w1\<lparr>calls := calls w1 @ [GCSDownload (gcs_bucket_name self) filename]\<rparr>
          in (case gcs w2 (gcs_bucket_name self, filename) of
                None \<Rightarrow> (Inl NotFound, w2)
              | Some body \<Rightarrow>
                  extractall filename (gcs_data_dir self)
                    (w2\<lparr>fs := (abspath (cwd w2) filename, File body) # fs w2\<rparr>)))"

subsection \<open>The document store\<close>

definition data_file_names :: "string list" where
  "data_file_names =
     [''intent_classifier.pkl'', ''metadata.json'', ''entity_synonyms.json'',
      ''training_data.json'', ''ner/config.json'', ''ner/model'']"

text \<open>
  json.load and json.dump are the library's, and a parameter here: \<open>json_load\<close> of the
  text of a file gives its value, or nothing where json.load raises; \<open>json_dump\<close> gives
  the text json.dump writes.
\<close>

record json =
  json_load :: "string \<Rightarrow> pyval option"
  json_dump :: "pyval \<Rightarrow> string"

text \<open>The loop of \<open>MongoDBPersistor.save_tar\<close> over the names of the data files.\<close>

fun read_data_files :: "json \<Rightarrow> string \<Rightarrow> string list \<Rightarrow> document \<Rightarrow> world \<Rightarrow> error + document" where
  "read_data_files js target_dir [] data_dict w = Inr data_dict"
| "read_data_files js target_dir (file_name # rest) data_dict w =
     (let file_loc = target_dir @ ''/'' @ file_name;
          file_extension = snd (splitext file_name)
      in if file_extension = ''.json'' then
           (case open_read w file_loc of
              Inl e \<Rightarrow> Inl e
            | Inr (TarGz ms) \<Rightarrow> Inl JSONDecodeError
            | Inr (Bytes b) \<Rightarrow>
                (case json_load js b of
                   None \<Rightarrow> Inl JSONDecodeError
                 | Some json_data \<Rightarrow>
                     read_data_files js target_dir rest
                       (AList.update file_name (FVal json_data) data_dict) w))
         else
           (case open_read w file_loc of
              Inl e \<Rightarrow> Inl e
            | Inr c \<Rightarrow>
                read_data_files js target_dir rest
                  (AList.update file_name (FBinary c) data_dict) w))"

text \<open>
  \<open>collection.insert(data_dict, check_keys=False)\<close>: the document gets a fresh
  identifier under \<open>_id\<close>, stored first, when it has none.
\<close>

definition insert_document :: "mongodb_persistor \<Rightarrow> document \<Rightarrow> world \<Rightarrow> world" where
  "insert_document self d w =
     (let k = (mongo_uri self, collection_name self);
          stored = (if map_of d ''_id'' = None then (''_id'', FObjectId (length (mongo w k))) # d
                    else d)
      in w\<lparr>mongo := (mongo w)(k := mongo w k @ [stored]),
           calls := calls w @ [MongoInsert (mongo_uri self) (collection_name self)]\<rparr>)"

definition mongo_save_tar :: "json \<Rightarrow> mongodb_persistor \<Rightarrow> string \<Rightarrow> world \<Rightarrow> (error + unit) \<times> world" where
  "mongo_save_tar js self target_dir w =
     (if \<not> isdir w target_dir then
        (Inl (ValueError (''Target directory '' @ quoted target_dir @ '' not found.'')), w)
      else
        let base_name = basename target_dir;
            data_dict = [(''model_name'', FVal (PStr base_name))]
        in case read_data_files js target_dir data_file_names data_dict w of
             Inl e \<Rightarrow> (Inl e, w)
           | Inr d \<Rightarrow> (Inr (), insert_document self d w))"

text \<open>dict.pop(key) without a default.\<close>

definition pop :: "string \<Rightarrow> document \<Rightarrow> error + document" where
  "pop key d = (if map_of d key = None then Inl (KeyError key) else Inr (AList.delete key d))"

text \<open>
  The loop of \<open>MongoDBPersistor.fetch_and_extract\<close> over the fields of the document.
  A file is created by its open; a value json.dump or write refuses is a TypeError.
\<close>

fun write_data_files :: "json \<Rightarrow> string \<Rightarrow> string \<Rightarrow> document \<Rightarrow> world \<Rightarrow> (error + unit) \<times> world" where
  "write_data_files js base_dir model_name [] w = (Inr (), w)"
| "write_data_files js base_dir model_name ((file_name, data) # rest) w =
     (let file_extension = snd (splitext file_name);
          file_loc = base_dir @ ''/'' @ model_name @ ''/'' @ file_name;
          model_base_dir = dirname file_loc
      in case (if \<not> exists w model_base_dir then makedirs model_base_dir w else (Inr (), w)) of
           (Inl e, w1) \<Rightarrow> (Inl e, w1)
         | (Inr _, w1) \<Rightarrow>
             if file_extension = ''.json'' then
               (case data of
                  FVal v \<Rightarrow>
                    (case open_write file_loc (Bytes (json_dump js v)) w1 of
                       (Inl e, w2) \<Rightarrow> (Inl e, w2)
                     | (Inr _, w2) \<Rightarrow> write_data_files js base_dir model_name rest w2)
                | _ \<Rightarrow>
                    (case open_write file_loc (Bytes []) w1 of
                       (Inl e, w2) \<Rightarrow> (Inl e, w2)
                     | (Inr _, w2) \<Rightarrow> (Inl TypeError, w2)))
             else
               (case data of
                  FBinary c \<Rightarrow>
                    (case open_write file_loc c w1 of
                       (Inl e, w2) \<Rightarrow> (Inl e, w2)
                     | (Inr _, w2) \<Rightarrow> write_data_files js base_dir model_name rest w2)
                | _ \<Rightarrow>
                    (case open_write file_loc (Bytes []) w1 of
                       (Inl e, w2) \<Rightarrow> (Inl e, w2)
                     | (Inr _, w2) \<Rightarrow> (Inl TypeError, w2))))"

text \<open>\<open>collection.find_one({'model_name': model_name})\<close>: the first such document.\<close>

definition find_one :: "mongodb_persistor \<Rightarrow> string \<Rightarrow> world \<Rightarrow> document option" where
  "find_one self model_name w =
     find (\<lambda>d. map_of d ''model_name'' = Some (FVal (PStr model_name)))
       (mongo w (mongo_uri self, collection_name self))"

definition mongo_fetch_and_extract :: "json \<Rightarrow> mongodb_persistor \<Rightarrow> string \<Rightarrow> world \<Rightarrow> (error + unit) \<times> world" where
  "mongo_fetch_and_extract js self model_dir w =
     (let model_name = basename model_dir;
          base_dir = dirname model_dir;
          w1 = w\<lparr>calls := calls w @ [MongoFindOne (mongo_uri self) (collection_name self)]\<rparr>
      in case find_one self model_name w of
           None \<Rightarrow>
             (Inl (ValueError (''Collection does not contain a model for given name ''
                                 @ quoted model_name)), w1)
         | Some data_dict \<Rightarrow>
             if data_dict = [] then
               (Inl (ValueError (''Collection does not contain a model for given name ''
                                   @ quoted model_name)), w1)
             else
               (case pop ''_id'' data_dict of
                  Inl e \<Rightarrow> (Inl e, w1)
                | Inr d1 \<Rightarrow>
                    (case pop ''model_name'' d1 of
                       Inl e \<Rightarrow> (Inl e, w1)
                     | Inr d2 \<Rightarrow> write_data_files js base_dir model_name d2 w1)))"

section \<open>A fragment of JSON\<close>

text \<open>
  The part of json.loads and json.dumps on values without floating point numbers and
  texts without escapes, for running the document store on concrete files: where
  \<open>json_loads\<close> gives a value, json.loads gives it; it gives nothing where json.loads
  raises, and also on the texts outside of the fragment. The recursion is bounded by
  the length of the text.
\<close>

definition skip_ws :: "string \<Rightarrow> string" where
  "skip_ws s = dropWhile (\<lambda>c. c \<in> {CHR 0x20, CHR 0x09, CHR 0x0A, CHR 0x0D}) s"

definition is_digit :: "char \<Rightarrow> bool" where
  "is_digit c = (c \<in> set ''0123456789'')"

definition digit_val :: "char \<Rightarrow> int" where
  "digit_val c = int (length (takeWhile (\<lambda>d. d \<noteq> c) ''0123456789''))"

definition parse_nat :: "string \<Rightarrow> (int \<times> string) option" where
  "parse_nat s =
     (let ds = takeWhile is_digit s; r = dropWhile is_digit s
      in if ds = [] then None
         else if hd ds = CHR ''0'' then Some (0, tl s)
         else Some (foldl (\<lambda>a c. 10 * a + digit_val c) 0 ds, r))"

definition parse_scalar :: "string \<Rightarrow> (pyval \<times> string) option" where
  "parse_scalar s =
     (if take 4 s = ''null'' then Some (PNone, drop 4 s)
      else if take 4 s = ''true'' then Some (PBool True, drop 4 s)
      else if take 5 s = ''false'' then Some (PBool False, drop 5 s)
      else case (if take 1 s = ''-'' then map_option (\<lambda>(n, r). (- n, r)) (parse_nat (drop 1 s))
                 else parse_nat s) of
             None \<Rightarrow> None
           | Some (n, r) \<Rightarrow>
               if take 1 r \<in> {''.'', ''e'', ''E''} then None else Some (PInt n, r))"

text \<open>The text up to the closing quote; an escape or a character that is not printable
  ASCII is outside of the fragment.\<close>

fun parse_string :: "string \<Rightarrow> (string \<times> string) option" where
  "parse_string [] = None"
| "parse_string (c # cs) =
     (if c = CHR 0x22 then Some ([], cs)
      else if c = CHR 0x5C \<or> \<not> ((32::nat) \<le> of_char c \<and> of_char c \<le> (126::nat)) then None
      else map_option (\<lambda>(x, r). (c # x, r)) (parse_string cs))"

fun parse_value :: "nat \<Rightarrow> string \<Rightarrow> (pyval \<times> string) option"
  and parse_items :: "nat \<Rightarrow> string \<Rightarrow> (pyval list \<times> string) option"
  and parse_pairs :: "nat \<Rightarrow> string \<Rightarrow> ((string \<times> pyval) list \<times> string) option"
where
  "parse_value 0 s = None"
| "parse_value (Suc n) s =
     (if take 1 s = ''['' then
        (let r = skip_ws (drop 1 s)
         in if take 1 r = '']'' then Some (PList [], drop 1 r)
            else map_option (\<lambda>(xs, r'). (PList xs, r')) (parse_items n r))
      else if take 1 s = ''{'' then
        (let r = skip_ws (drop 1 s)
         in if take 1 r = ''}'' then Some (PDict [], drop 1 r)
            else map_option
                   (\<lambda>(kvs, r'). (PDict (foldl (\<lambda>d kv. AList.update (fst kv) (snd kv) d) [] kvs), r'))
                   (parse_pairs n r))
      else if take 1 s = [CHR 0x22] then
        map_option (\<lambda>(x, r). (PStr x, r)) (parse_string (drop 1 s))
      else parse_scalar s)"
| "parse_items 0 s = None"
| "parse_items (Suc n) s =
     (case parse_value n s of
        None \<Rightarrow> None
      | Some (v, r) \<Rightarrow>
          (let r1 = skip_ws r
           in if take 1 r1 = '','' then
                map_option (\<lambda>(vs, r2). (v # vs, r2)) (parse_items n (skip_ws (drop 1 r1)))
              else if take 1 r1 = '']'' then Some ([v], drop 1 r1)
              else None))"
| "parse_pairs 0 s = None"
| "parse_pairs (Suc n) s =
     (if take 1 s \<noteq> [CHR 0x22] then None
      else case parse_string (drop 1 s) of
             None \<Rightarrow> None
           | Some (k, r) \<Rightarrow>
               (let r1 = skip_ws r
                in if take 1 r1 \<noteq> '':'' then None
                   else case parse_value n (skip_ws (drop 1 r1)) of
                          None \<Rightarrow> None
                        | Some (v, r2) \<Rightarrow>
                            (let r3 = skip_ws r2
                             in if take 1 r3 = '','' then
                                  map_option (\<lambda>(kvs, r4). ((k, v) # kvs, r4))
                                    (parse_pairs n (skip_ws (drop 1 r3)))
                                else if take 1 r3 = ''}'' then Some ([(k, v)], drop 1 r3)
                                else None)))"

definition json_loads :: "string \<Rightarrow> pyval option" where
  "json_loads s =
     (case parse_value (Suc (length s)) (skip_ws s) of
        None \<Rightarrow> None
      | Some (v, r) \<Rightarrow> if skip_ws r = [] then Some v else None)"

text \<open>The decimal digits of a natural number.\<close>

fun digits :: "nat \<Rightarrow> string" where
  "digits n = (if n < 10 then [''0123456789'' ! n]
               else digits (n div 10) @ [''0123456789'' ! (n mod 10)])"

declare digits.simps [simp del]

definition show_int :: "int \<Rightarrow> string" where
  "show_int i = (if i < 0 then ''-'' @ digits (nat (- i)) else digits (nat i))"

text \<open>json.dumps of a text, with ensure_ascii: the characters are code points below 256.\<close>

definition escape_char :: "char \<Rightarrow> string" where
  "escape_char c =
     (if c = CHR 0x22 then [CHR 0x5C, CHR 0x22]
      else if c = CHR 0x5C then [CHR 0x5C, CHR 0x5C]
      else if c = CHR 0x0A then [CHR 0x5C, CHR ''n'']
      else if c = CHR 0x0D then [CHR 0x5C, CHR ''r'']
      else if c = CHR 0x09 then [CHR 0x5C, CHR ''t'']
      else if c = CHR 0x08 then [CHR 0x5C, CHR ''b'']
      else if c = CHR 0x0C then [CHR 0x5C, CHR ''f'']
      else if (32::nat) \<le> of_char c \<and> of_char c \<le> (126::nat) then [c]
      else [CHR 0x5C, CHR ''u'', CHR ''0'', CHR ''0'',
            ''0123456789abcdef'' ! ((of_char c :: nat) div 16),
            ''0123456789abcdef'' ! ((of_char c :: nat) mod 16)])"

definition dump_text :: "string \<Rightarrow> string" where
  "dump_text s = [CHR 0x22] @ concat (map escape_char s) @ [CHR 0x22]"

fun json_dumps :: "pyval \<Rightarrow> string" where
  "json_dumps PNone = ''null''"
| "json_dumps (PBool b) = (if b then ''true'' else ''false'')"
| "json_dumps (PInt i) = show_int i"
| "json_dumps (PStr s) = dump_text s"
| "json_dumps (PList xs) = ''['' @ str_join '', '' (map json_dumps xs) @ '']''"
| "json_dumps (PDict kvs) =
     ''{'' @ str_join '', '' (map (\<lambda>kv. dump_text (fst kv) @ '': '' @ json_dumps (snd kv)) kvs) @ ''}''"

definition json_fragment :: json where
  "json_fragment = \<lparr>json_load = json_loads, json_dump = json_dumps\<rparr>"

section \<open>What the claims speak of\<close>

text \<open>The archive extension of the two object stores.\<close>

definition archive_key :: "string \<Rightarrow> string" where
  "archive_key target_dir = basename target_dir @ ''.tar.gz''"

text \<open>The path of the archive that save_tar writes: in the working directory.\<close>

definition local_archive :: "world \<Rightarrow> string \<Rightarrow> path" where
  "local_archive w target_dir = cwd w @ [archive_key target_dir]"

text \<open>
  The members of the archive that save_tar makes of \<open>target_dir\<close>: what the file system
  holds at and below the directory, the archive itself left out, under the base name.
\<close>

definition bundle_members :: "world \<Rightarrow> string \<Rightarrow> (string list \<times> node) list" where
  "bundle_members w target_dir =
     archive_members ((local_archive w target_dir, File (TarGz [])) # fs w)
       (abspath (cwd w) (join (dirname target_dir) (basename target_dir)))
       (filter (\<lambda>c. c \<noteq> []) (split_slash (basename target_dir)))
       (local_archive w target_dir)"

text \<open>A file content that json.load accepts.\<close>

definition decodes :: "json \<Rightarrow> content \<Rightarrow> bool" where
  "decodes js c = (case c of Bytes b \<Rightarrow> json_load js b \<noteq> None | TarGz ms \<Rightarrow> False)"

text \<open>
  What save_tar of the document store puts under the name of a data file whose content
  is \<open>c\<close>: the parsed value of a \<open>.json\<close> file, the content itself of any other.
\<close>

definition stored_field :: "json \<Rightarrow> string \<Rightarrow> content \<Rightarrow> bson" where
  "stored_field js file_name c =
     (if snd (splitext file_name) = ''.json''
      then (case c of Bytes b \<Rightarrow> FVal (the (json_load js b)) | TarGz ms \<Rightarrow> FBinary c)
      else FBinary c)"

text \<open>
  The paths at which tarfile extracts the members of an archive: each name, resolved
  below the data directory.
\<close>

definition extraction_targets :: "world \<Rightarrow> pyval \<Rightarrow> (string list \<times> node) list \<Rightarrow> path list" where
  "extraction_targets w data_dir ms =
     (case data_dir of
        PStr d \<Rightarrow> map (\<lambda>m. norm_from (abspath (cwd w) d) (fst m)) ms
      | _ \<Rightarrow> [])"

section \<open>Concrete worlds\<close>

text \<open>A home directory with one text file, and empty remote stores.\<close>

definition w_home :: world where
  "w_home =
     \<lparr>cwd = [''home''],
      fs = [([''home''], Dir), ([''home'', ''notes.txt''], File (Bytes ''hello''))],
      s3 = (\<lambda>k. None), gcs = (\<lambda>k. None), mongo = (\<lambda>k. []), calls = []\<rparr>"

text \<open>A configuration without the storage key, and one that asks for a store the
  module does not know.\<close>

definition config_without_storage :: config where
  "config_without_storage = [''path'' \<mapsto> PStr ''models'', ''bucket_name'' \<mapsto> PStr ''bucket'']"

definition config_azure :: config where
  "config_azure = [''storage'' \<mapsto> PStr ''azure'', ''path'' \<mapsto> PStr ''models'']"

text \<open>One persistor of each class.\<close>

definition aws_models :: aws_persistor where
  "aws_models = \<lparr>aws_data_dir = PStr ''data'', aws_bucket_name = PStr ''bucket''\<rparr>"

definition gcs_models :: gcs_persistor where
  "gcs_models = \<lparr>gcs_data_dir = PStr ''data'', gcs_bucket_name = PStr ''bucket''\<rparr>"

definition mongo_models :: mongodb_persistor where
  "mongo_models = \<lparr>mongo_uri = PStr ''mongodb://host/db'', collection_name = PStr ''models''\<rparr>"

text \<open>
  A process in /home with a trained model in /home/models/model_v1, which has every
  data file of the document store, a data directory /home/data that still holds a file
  of an earlier model_v1, and empty remote stores.
\<close>

definition w_models :: world where
  "w_models =
     \<lparr>cwd = [''home''],
      fs = [([''home''], Dir),
            ([''home'', ''data''], Dir),
            ([''home'', ''data'', ''model_v1''], Dir),
            ([''home'', ''data'', ''model_v1'', ''stale.txt''], File (Bytes ''old'')),
            ([''home'', ''models''], Dir),
            ([''home'', ''models'', ''model_v1''], Dir),
            ([''home'', ''models'', ''model_v1'', ''intent_classifier.pkl''], File (Bytes ''pickle'')),
            ([''home'', ''models'', ''model_v1'', ''metadata.json''], File (Bytes ''{\"version\":1}'')),
            ([''home'', ''models'', ''model_v1'', ''entity_synonyms.json''], File (Bytes ''{}'')),
            ([''home'', ''models'', ''model_v1'', ''training_data.json''], File (Bytes ''[1, 2]'')),
            ([''home'', ''models'', ''model_v1'', ''ner''], Dir),
            ([''home'', ''models'', ''model_v1'', ''ner'', ''config.json''], File (Bytes ''null'')),
            ([''home'', ''models'', ''model_v1'', ''ner'', ''model''], File (Bytes ''weights''))],
      s3 = (\<lambda>k. None), gcs = (\<lambda>k. None), mongo = (\<lambda>k. []), calls = []\<rparr>"

text \<open>The archive of /home/models/model_v1.\<close>

definition model_v1_members :: "(string list \<times> node) list" where
  "model_v1_members =
     [([''model_v1''], Dir),
      ([''model_v1'', ''intent_classifier.pkl''], File (Bytes ''pickle'')),
      ([''model_v1'', ''metadata.json''], File (Bytes ''{\"version\":1}'')),
      ([''model_v1'', ''entity_synonyms.json''], File (Bytes ''{}'')),
      ([''model_v1'', ''training_data.json''], File (Bytes ''[1, 2]'')),
      ([''model_v1'', ''ner''], Dir),
      ([''model_v1'', ''ner'', ''config.json''], File (Bytes ''null'')),
      ([''model_v1'', ''ner'', ''model''], File (Bytes ''weights''))]"

text \<open>The same files, seen by a process whose working directory is /home/models.\<close>

definition w_in_models :: world where
  "w_in_models = w_models\<lparr>cwd := [''home'', ''models'']\<rparr>"

text \<open>The world after model_v1 was saved to S3, and after it was saved to GCS.\<close>

definition w_saved_aws :: world where
  "w_saved_aws =
     w_models\<lparr>fs := ([''home'', ''model_v1.tar.gz''], File (TarGz model_v1_members))
                     # ([''home'', ''model_v1.tar.gz''], File (TarGz [])) # fs w_models,
               s3 := (s3 w_models)((PStr ''bucket'', ''model_v1.tar.gz'') \<mapsto> TarGz model_v1_members),
               calls := [S3Put (PStr ''bucket'') ''model_v1.tar.gz'']\<rparr>"

definition w_saved_gcs :: world where
  "w_saved_gcs =
     w_models\<lparr>fs := ([''home'', ''model_v1.tar.gz''], File (TarGz model_v1_members))
                     # ([''home'', ''model_v1.tar.gz''], File (TarGz [])) # fs w_models,
               gcs := (gcs w_models)((PStr ''bucket'', ''model_v1.tar.gz'') \<mapsto> TarGz model_v1_members),
               calls := [GCSUpload (PStr ''bucket'') ''model_v1.tar.gz'']\<rparr>"

text \<open>The document of model_v1, and the world after model_v1 was saved to MongoDB.\<close>

definition model_v1_document :: document where
  "model_v1_document =
     [(''_id'', FObjectId 0),
      (''model_name'', FVal (PStr ''model_v1'')),
      (''intent_classifier.pkl'', FBinary (Bytes ''pickle'')),
      (''metadata.json'', FVal (PDict [(''version'', PInt 1)])),
      (''entity_synonyms.json'', FVal (PDict [])),
      (''training_data.json'', FVal (PList [PInt 1, PInt 2])),
      (''ner/config.json'', FVal PNone),
      (''ner/model'', FBinary (Bytes ''weights''))]"

definition w_saved_mongo :: world where
  "w_saved_mongo =
     w_models\<lparr>mongo := (mongo w_models)((PStr ''mongodb://host/db'', PStr ''models'')
                                := [model_v1_document]),
               calls := [MongoInsert (PStr ''mongodb://host/db'') (PStr ''models'')]\<rparr>"

text \<open>
  A model directory /home/models/broken whose metadata.json was cut off while it was
  written and whose ner/model is missing.
\<close>

definition w_broken :: world where
  "w_broken =
     \<lparr>cwd = [''home''],
      fs = [([''home''], Dir),
            ([''home'', ''models''], Dir),
            ([''home'', ''models'', ''broken''], Dir),
            ([''home'', ''models'', ''broken'', ''intent_classifier.pkl''], File (Bytes ''pickle'')),
            ([''home'', ''models'', ''broken'', ''metadata.json''], File (Bytes ''{\"version\":'')),
            ([''home'', ''models'', ''broken'', ''entity_synonyms.json''], File (Bytes ''{}'')),
            ([''home'', ''models'', ''broken'', ''training_data.json''], File (Bytes ''[1, 2]'')),
            ([''home'', ''models'', ''broken'', ''ner''], Dir),
            ([''home'', ''models'', ''broken'', ''ner'', ''config.json''], File (Bytes ''null''))],
      s3 = (\<lambda>k. None), gcs = (\<lambda>k. None), mongo = (\<lambda>k. []), calls = []\<rparr>"

text \<open>
  A process in /home that extracts into its working directory, and a bucket whose
  archive a.tar.gz has a member of that same name.
\<close>

definition aws_here :: aws_persistor where
  "aws_here = \<lparr>aws_data_dir = PStr ''.'', aws_bucket_name = PStr ''bucket''\<rparr>"

definition self_members :: "(string list \<times> node) list" where
  "self_members = [([''a.tar.gz''], File (Bytes ''hello''))]"

definition w_self :: world where
  "w_self =
     \<lparr>cwd = [''home''],
      fs = [([''home''], Dir)],
      s3 = (\<lambda>k. if k = (PStr ''bucket'', ''a.tar.gz'') then Some (TarGz self_members) else None),
      gcs = (\<lambda>k. None), mongo = (\<lambda>k. []), calls = []\<rparr>"

section \<open>Path names\<close>

lemma basename_no_slash: "CHR ''/'' \<notin> set (basename p)"
proof -
  have "\<forall>c \<in> set (takeWhile (\<lambda>c. c \<noteq> CHR ''/'') (rev p)). c \<noteq> CHR ''/''"
    by (metis set_takeWhileD)
  then show ?thesis by (auto simp: basename_def)
qed

lemma split_slash_no_slash: "CHR ''/'' \<notin> set s \<Longrightarrow> split_slash s = [s]"
  by (induction s) (auto split: list.splits)

lemma split_slash_not_Nil: "split_slash s \<noteq> []"
  by (induction s) (auto split: list.splits)

lemma split_slash_append:
  "split_slash (x @ CHR ''/'' # y) = split_slash x @ split_slash y"
  by (induction x) (auto simp: split_slash_not_Nil split: list.splits)

lemma norm_from_append: "norm_from acc (xs @ ys) = norm_from (norm_from acc xs) ys"
  by (induction xs arbitrary: acc) auto

lemma norm_from_plain: "plain cs \<Longrightarrow> norm_from acc cs = acc @ cs"
  by (induction cs arbitrary: acc) (auto simp: plain_def)

lemma archive_name_not_dots:
  "b @ ''.tar.gz'' \<noteq> [] \<and> b @ ''.tar.gz'' \<noteq> ''.'' \<and> b @ ''.tar.gz'' \<noteq> ''..''"
proof -
  have "length (b @ ''.tar.gz'') \<noteq> length ''.''" by simp
  moreover have "length (b @ ''.tar.gz'') \<noteq> length ''..''" by simp
  ultimately show ?thesis by auto
qed

lemma abspath_archive_name:
  assumes "CHR ''/'' \<notin> set b"
  shows "abspath wd (b @ ''.tar.gz'') = wd @ [b @ ''.tar.gz'']"
proof -
  have ns: "CHR ''/'' \<notin> set (b @ ''.tar.gz'')" using assms by simp
  have t1: "take 1 (b @ ''.tar.gz'') \<noteq> ''/''"
    using assms by (cases b) auto
  show ?thesis
    unfolding abspath_def split_slash_no_slash[OF ns] using t1 archive_name_not_dots[of b] by simp
qed

lemma dirname_archive_name:
  assumes "CHR ''/'' \<notin> set b"
  shows "dirname (b @ ''.tar.gz'') = []"
proof -
  have "CHR ''/'' \<notin> set (rev (b @ ''.tar.gz''))" using assms by simp
  then have "dropWhile (\<lambda>c. c \<noteq> CHR ''/'') (rev (b @ ''.tar.gz'')) = []"
    by auto
  then show ?thesis by (simp add: dirname_def)
qed

section \<open>Archives of a directory\<close>

lemma make_archive_frame:
  assumes "make_archive b rd bd w = (r, w')"
  shows "cwd w' = cwd w \<and> s3 w' = s3 w \<and> gcs w' = gcs w \<and> mongo w' = mongo w
         \<and> calls w' = calls w"
  using assms
  by (auto simp: make_archive_def Let_def open_write_def makedirs_def
           split: if_splits prod.splits sum.splits)

lemma make_archive_basename_Inr:
  assumes "make_archive (basename t) rd bd w = (Inr ap, w')"
  shows "ap = cwd w @ [basename t @ ''.tar.gz'']
       \<and> isdir w rd
       \<and> write_path ap (TarGz []) (fs w) = Inr ((ap, File (TarGz [])) # fs w)
       \<and> w' = w\<lparr>fs := (ap, File (TarGz (archive_members ((ap, File (TarGz [])) # fs w)
                                    (abspath (cwd w) (join rd bd))
                                    (filter (\<lambda>c. c \<noteq> []) (split_slash bd)) ap)))
                         # (ap, File (TarGz [])) # fs w\<rparr>"
  using assms
  by (auto simp: make_archive_def Let_def open_write_def write_path_def
                 dirname_archive_name[OF basename_no_slash]
                 abspath_archive_name[OF basename_no_slash]
           split: if_splits prod.splits sum.splits)

section \<open>Saving to an object store\<close>

lemma aws_save_tar_Inr:
  assumes "aws_save_tar a t w = (Inr u, w')"
  shows "isdir w t \<and> isdir w (dirname t)
       \<and> w' = w\<lparr>fs := (local_archive w t, File (TarGz (bundle_members w t)))
                        # (local_archive w t, File (TarGz [])) # fs w,
                  s3 := (s3 w)((aws_bucket_name a, archive_key t) \<mapsto> TarGz (bundle_members w t)),
                  calls := calls w @ [S3Put (aws_bucket_name a) (archive_key t)]\<rparr>"
proof -
  from assms have dir: "isdir w t"
    by (auto simp: aws_save_tar_def split: if_splits)
  obtain r w1 where ma: "make_archive (basename t) (dirname t) (basename t) w = (r, w1)"
    by (cases "make_archive (basename t) (dirname t) (basename t) w") auto
  with assms dir obtain ap where r: "r = Inr ap"
    by (cases r) (auto simp: aws_save_tar_def Let_def)
  note ch = make_archive_basename_Inr[OF ma[unfolded r]]
  from ch have ap: "ap = local_archive w t"
    by (simp add: local_archive_def archive_key_def)
  from ch ap have w1: "w1 = w\<lparr>fs := (ap, File (TarGz (bundle_members w t))) # (ap, File (TarGz [])) # fs w\<rparr>"
    by (simp add: bundle_members_def)
  have key: "path_basename ap = archive_key t"
    by (simp add: ap local_archive_def path_basename_def)
  have rd: "read_path (fs w1) ap = Inr (TarGz (bundle_members w t))"
    by (simp add: w1 read_path_def lookup_def ap local_archive_def)
  from assms dir ma r rd key have "w' = w1\<lparr>s3 := (s3 w1)((aws_bucket_name a, archive_key t) \<mapsto> TarGz (bundle_members w t)),
                   calls := calls w1 @ [S3Put (aws_bucket_name a) (archive_key t)]\<rparr>"
    by (simp add: aws_save_tar_def Let_def)
  with w1 ap ch dir show ?thesis by simp
qed

lemma aws_save_tar_Inl:
  assumes "aws_save_tar a t w = (Inl e, w')"
  shows "cwd w' = cwd w \<and> s3 w' = s3 w \<and> gcs w' = gcs w \<and> mongo w' = mongo w
         \<and> calls w' = calls w"
proof (cases "make_archive (basename t) (dirname t) (basename t) w")
  case (Pair r w1)
  note fr = make_archive_frame[OF Pair]
  from assms Pair fr show ?thesis
    by (auto simp: aws_save_tar_def Let_def split: if_splits sum.splits)
qed

lemma gcs_save_tar_Inr:
  assumes "gcs_save_tar g t w = (Inr u, w')"
  shows "isdir w t \<and> isdir w (dirname t)
       \<and> w' = w\<lparr>fs := (local_archive w t, File (TarGz (bundle_members w t)))
                        # (local_archive w t, File (TarGz [])) # fs w,
                  gcs := (gcs w)((gcs_bucket_name g, archive_key t) \<mapsto> TarGz (bundle_members w t)),
                  calls := calls w @ [GCSUpload (gcs_bucket_name g) (archive_key t)]\<rparr>"
proof -
  from assms have dir: "isdir w t"
    by (auto simp: gcs_save_tar_def split: if_splits)
  obtain r w1 where ma: "make_archive (basename t) (dirname t) (basename t) w = (r, w1)"
    by (cases "make_archive (basename t) (dirname t) (basename t) w") auto
  with assms dir obtain ap where r: "r = Inr ap"
    by (cases r) (auto simp: gcs_save_tar_def Let_def)
  note ch = make_archive_basename_Inr[OF ma[unfolded r]]
  from ch have ap: "ap = local_archive w t"
    by (simp add: local_archive_def archive_key_def)
  from ch ap have w1: "w1 = w\<lparr>fs := (ap, File (TarGz (bundle_members w t))) # (ap, File (TarGz [])) # fs w\<rparr>"
    by (simp add: bundle_members_def)
  have key: "path_basename ap = archive_key t"
    by (simp add: ap local_archive_def path_basename_def)
  have rd: "read_path (fs w1) ap = Inr (TarGz (bundle_members w t))"
    by (simp add: w1 read_path_def lookup_def ap local_archive_def)
  from assms dir ma r rd key have "w' = w1\<lparr>gcs := (gcs w1)((gcs_bucket_name g, archive_key t) \<mapsto> TarGz (bundle_members w t)),
                   calls := calls w1 @ [GCSUpload (gcs_bucket_name g) (archive_key t)]\<rparr>"
    by (simp add: gcs_save_tar_def Let_def)
  with w1 ap ch dir show ?thesis by simp
qed

lemma gcs_save_tar_Inl:
  assumes "gcs_save_tar g t w = (Inl e, w')"
  shows "cwd w' = cwd w \<and> s3 w' = s3 w \<and> gcs w' = gcs w \<and> mongo w' = mongo w
         \<and> calls w' = calls w"
proof (cases "make_archive (basename t) (dirname t) (basename t) w")
  case (Pair r w1)
  note fr = make_archive_frame[OF Pair]
  from assms Pair fr show ?thesis
    by (auto simp: gcs_save_tar_def Let_def split: if_splits sum.splits)
qed

section \<open>Running the concrete worlds\<close>

lemmas fs_eval = stat_def lookup_def abspath_def isdir_def exists_def open_read_def
  open_write_def write_path_def basename_def dirname_def splitext_def join_def Let_def
  read_path_def path_basename_def

lemma bundle_members_models: "bundle_members w_models ''models/model_v1'' = model_v1_members"
  by (simp add: bundle_members_def local_archive_def archive_key_def archive_members_def
        fs_eval w_models_def model_v1_members_def)

lemma aws_save_models:
  "aws_save_tar aws_models ''models/model_v1'' w_models = (Inr (), w_saved_aws)"
  by (simp add: aws_save_tar_def make_archive_def archive_members_def w_saved_aws_def
        fs_eval w_models_def model_v1_members_def aws_models_def)

lemma gcs_save_models:
  "gcs_save_tar gcs_models ''models/model_v1'' w_models = (Inr (), w_saved_gcs)"
  by (simp add: gcs_save_tar_def make_archive_def archive_members_def w_saved_gcs_def
        fs_eval w_models_def model_v1_members_def gcs_models_def)

lemma aws_save_bare_name:
  "aws_save_tar aws_models ''model_v1'' w_in_models = (Inl OSError, w_in_models)"
  by (simp add: aws_save_tar_def make_archive_def w_in_models_def fs_eval w_models_def)

lemma gcs_save_bare_name:
  "gcs_save_tar gcs_models ''model_v1'' w_in_models = (Inl OSError, w_in_models)"
  by (simp add: gcs_save_tar_def make_archive_def w_in_models_def fs_eval w_models_def)

section \<open>Saving to the document store\<close>

lemma map_of_update: "map_of (AList.update k v al) = (map_of al)(k \<mapsto> v)"
  by (rule AList.update_conv')

lemma read_data_files_Inr:
  assumes "read_data_files js t names d w = Inr d'"
  shows "(\<forall>f \<in> set names. \<exists>c. open_read w (t @ ''/'' @ f) = Inr c
              \<and> (snd (splitext f) = ''.json'' \<longrightarrow> decodes js c)
              \<and> map_of d' f = Some (stored_field js f c))
         \<and> (\<forall>k. k \<notin> set names \<longrightarrow> map_of d' k = map_of d k)"
  using assms
proof (induction names arbitrary: d)
  case Nil
  then show ?case by simp
next
  case (Cons f rest)
  from Cons.prems obtain c where c: "open_read w (t @ ''/'' @ f) = Inr c"
    by (cases "open_read w (t @ ''/'' @ f)") (auto simp: Let_def split: if_splits)
  from Cons.prems c have dec: "snd (splitext f) = ''.json'' \<longrightarrow> decodes js c"
    by (auto simp: Let_def decodes_def split: if_splits content.splits option.splits)
  from Cons.prems c dec
  have rest: "read_data_files js t rest (AList.update f (stored_field js f c) d) w = Inr d'"
    by (auto simp: Let_def decodes_def stored_field_def
             split: if_splits content.splits option.splits)
  note ih = Cons.IH[OF rest]
  have here: "map_of d' f = Some (stored_field js f c)"
  proof (cases "f \<in> set rest")
    case True
    with ih c show ?thesis by auto
  next
    case False
    with ih show ?thesis by (simp add: map_of_update)
  qed
  from ih c dec here show ?case by (auto simp: map_of_update)
qed

lemma read_data_files_total:
  assumes "\<forall>f \<in> set names. \<exists>c. open_read w (t @ ''/'' @ f) = Inr c
              \<and> (snd (splitext f) = ''.json'' \<longrightarrow> decodes js c)"
  shows "\<exists>d'. read_data_files js t names d w = Inr d'"
  using assms
proof (induction names arbitrary: d)
  case Nil
  then show ?case by simp
next
  case (Cons f rest)
  then obtain c where c: "open_read w (t @ ''/'' @ f) = Inr c"
    and dec: "snd (splitext f) = ''.json'' \<longrightarrow> decodes js c"
    by auto
  from Cons have "\<exists>d'. read_data_files js t rest (AList.update f (stored_field js f c) d) w = Inr d'"
    by simp
  with c dec show ?case
    by (auto simp: Let_def decodes_def stored_field_def split: content.splits option.splits)
qed

lemma read_data_files_Inl:
  assumes "read_data_files js t names d w = Inl e"
  shows "(e = OSError \<and> (\<exists>f \<in> set names. \<forall>c. open_read w (t @ ''/'' @ f) \<noteq> Inr c))
         \<or> (e = JSONDecodeError
             \<and> (\<exists>f \<in> set names. snd (splitext f) = ''.json''
                    \<and> (\<exists>c. open_read w (t @ ''/'' @ f) = Inr c \<and> \<not> decodes js c)))"
  using assms
proof (induction names arbitrary: d)
  case Nil
  then show ?case by simp
next
  case (Cons f rest)
  show ?case
  proof (cases "open_read w (t @ ''/'' @ f)")
    case (Inl e')
    then have "e' = OSError"
      by (auto simp: open_read_def split: option.splits node.splits)
    with Cons.prems Inl show ?thesis
      by (auto simp: Let_def split: if_splits)
  next
    case (Inr c)
    show ?thesis
    proof (cases "snd (splitext f) = ''.json'' \<and> \<not> decodes js c")
      case True
      with Cons.prems Inr have "e = JSONDecodeError"
        by (auto simp: Let_def decodes_def split: content.splits option.splits)
      with True Inr show ?thesis by auto
    next
      case False
      with Cons.prems Inr
      have "read_data_files js t rest (AList.update f (stored_field js f c) d) w = Inl e"
        by (auto simp: Let_def decodes_def stored_field_def
                 split: if_splits content.splits option.splits)
      from Cons.IH[OF this] show ?thesis by auto
    qed
  qed
qed

lemma read_data_files_missing:
  assumes "\<exists>f \<in> set names. \<forall>c. open_read w (t @ ''/'' @ f) \<noteq> Inr c"
  shows "\<exists>e. read_data_files js t names d w = Inl e"
proof (cases "read_data_files js t names d w")
  case (Inl e)
  then show ?thesis by simp
next
  case (Inr d')
  from read_data_files_Inr[OF this] assms show ?thesis by auto
qed

lemmas json_eval = json_fragment_def json_loads_def skip_ws_def parse_scalar_def parse_nat_def
  is_digit_def digit_val_def

lemma mongo_save_models:
  "mongo_save_tar json_fragment mongo_models ''models/model_v1'' w_models = (Inr (), w_saved_mongo)"
  by (simp add: mongo_save_tar_def data_file_names_def insert_document_def w_saved_mongo_def
        model_v1_document_def mongo_models_def json_eval fs_eval w_models_def)

lemma mongo_save_broken:
  "mongo_save_tar json_fragment mongo_models ''models/broken'' w_broken = (Inl JSONDecodeError, w_broken)"
  by (simp add: mongo_save_tar_def data_file_names_def json_eval fs_eval w_broken_def)

section \<open>Extraction\<close>

lemma mkdirs_lookup:
  assumes "mkdirs qs t = Inr t'"
  shows "lookup t' p = lookup t p
         \<or> (lookup t p = None \<and> lookup t' p = Some Dir \<and> p \<in> set qs)"
  using assms
proof (induction qs arbitrary: t)
  case Nil
  then show ?case by simp
next
  case (Cons q qs)
  show ?case
  proof (cases "lookup t q")
    case None
    with Cons.prems have m: "mkdirs qs ((q, Dir) # t) = Inr t'" by simp
    from None have q: "q \<noteq> []" by (auto simp: lookup_def split: if_splits)
    from Cons.IH[OF m] None q show ?thesis
      by (auto simp: lookup_def split: if_splits)
  next
    case (Some n)
    with Cons.prems have "n = Dir" and "mkdirs qs t = Inr t'"
      by (cases n; simp)+
    from Cons.IH[OF this(2)] show ?thesis by auto
  qed
qed

lemma extract_member_lookup:
  assumes "extract_member dest m t = Inr t'"
  shows "lookup t' (norm_from dest (fst m)) = Some (snd m)"
    and "p \<noteq> norm_from dest (fst m) \<Longrightarrow>
           lookup t' p = lookup t p
           \<or> (lookup t p = None \<and> lookup t' p = Some Dir
               \<and> strict_prefix p (norm_from dest (fst m)))"
proof -
  let ?tg = "norm_from dest (fst m)"
  from assms obtain t1 where mk: "mkdirs (prefixes (butlast ?tg)) t = Inr t1"
    by (cases "mkdirs (prefixes (butlast ?tg)) t") (auto simp: extract_member_def Let_def)
  note ml = mkdirs_lookup[OF mk]
  have step: "lookup t' ?tg = Some (snd m) \<and> (\<forall>p. p \<noteq> ?tg \<longrightarrow> lookup t' p = lookup t1 p)"
  proof (cases "snd m")
    case Dir
    show ?thesis
    proof (cases "lookup t1 ?tg")
      case None
      with assms mk Dir have "t' = (?tg, Dir) # t1"
        by (simp add: extract_member_def Let_def)
      with Dir None show ?thesis by (auto simp: lookup_def split: if_splits)
    next
      case (Some n)
      with assms mk Dir have "n = Dir \<and> t' = t1"
        by (cases n) (simp_all add: extract_member_def Let_def)
      with Dir Some show ?thesis by simp
    qed
  next
    case (File c)
    with assms mk have "write_path ?tg c t1 = Inr t'"
      by (simp add: extract_member_def Let_def)
    then have "?tg \<noteq> [] \<and> t' = (?tg, File c) # t1"
      by (auto simp: write_path_def split: if_splits)
    with File show ?thesis by (auto simp: lookup_def)
  qed
  from step show "lookup t' ?tg = Some (snd m)" by simp
  assume ne: "p \<noteq> ?tg"
  have "p \<in> set (prefixes (butlast ?tg)) \<Longrightarrow> strict_prefix p ?tg"
    using ne prefixeq_butlast[of ?tg]
    by (auto simp: strict_prefix_def intro: prefix_order.trans)
  with step ne ml[of p] show "lookup t' p = lookup t p
           \<or> (lookup t p = None \<and> lookup t' p = Some Dir \<and> strict_prefix p ?tg)"
    by auto
qed

lemma extract_members_keeps:
  assumes "extract_members dest ms t = (r, t')"
    and "lookup t p = Some n"
    and "p \<notin> (\<lambda>m. norm_from dest (fst m)) ` set ms"
  shows "lookup t' p = Some n"
  using assms
proof (induction ms arbitrary: t)
  case Nil
  then show ?case by simp
next
  case (Cons m ms)
  show ?case
  proof (cases "extract_member dest m t")
    case (Inl e)
    with Cons.prems show ?thesis by simp
  next
    case (Inr t1)
    from Cons.prems have ne: "p \<noteq> norm_from dest (fst m)" by auto
    from extract_member_lookup(2)[OF Inr ne] Cons.prems(2)
    have "lookup t1 p = Some n" by auto
    moreover from Cons.prems Inr have "extract_members dest ms t1 = (r, t')" by simp
    ultimately show ?thesis using Cons.IH Cons.prems(3) by auto
  qed
qed

lemma extract_members_frame:
  assumes "extract_members dest ms t = (r, t')"
  shows "lookup t' p = lookup t p
         \<or> p \<in> (\<lambda>m. norm_from dest (fst m)) ` set ms
         \<or> (lookup t p = None \<and> lookup t' p = Some Dir
             \<and> (\<exists>m \<in> set ms. strict_prefix p (norm_from dest (fst m))))"
  using assms
proof (induction ms arbitrary: t)
  case Nil
  then show ?case by simp
next
  case (Cons m ms)
  show ?case
  proof (cases "extract_member dest m t")
    case (Inl e)
    with Cons.prems show ?thesis by simp
  next
    case (Inr t1)
    with Cons.prems have rest: "extract_members dest ms t1 = (r, t')" by simp
    note ih = Cons.IH[OF rest]
    show ?thesis
    proof (cases "p = norm_from dest (fst m)")
      case True
      then show ?thesis by simp
    next
      case False
      from extract_member_lookup(2)[OF Inr False] ih show ?thesis
        by auto
    qed
  qed
qed

lemma extract_members_extracted:
  assumes "extract_members dest ms t = (None, t')"
    and "distinct (map (\<lambda>m. norm_from dest (fst m)) ms)"
    and "m \<in> set ms"
  shows "lookup t' (norm_from dest (fst m)) = Some (snd m)"
  using assms
proof (induction ms arbitrary: t)
  case Nil
  then show ?case by simp
next
  case (Cons m' ms)
  from Cons.prems(1) obtain t1 where st: "extract_member dest m' t = Inr t1"
    and rest: "extract_members dest ms t1 = (None, t')"
    by (cases "extract_member dest m' t") auto
  show ?case
  proof (cases "m \<in> set ms")
    case True
    with Cons.IH[OF rest] Cons.prems(2) show ?thesis by simp
  next
    case False
    with Cons.prems(3) have m: "m = m'" by simp
    from extract_member_lookup(1)[OF st]
    have "lookup t1 (norm_from dest (fst m')) = Some (snd m')" .
    moreover from Cons.prems(2)
    have "norm_from dest (fst m') \<notin> (\<lambda>m. norm_from dest (fst m)) ` set ms" by auto
    ultimately show ?thesis
      using extract_members_keeps[OF rest] m by blast
  qed
qed

lemma extractall_Inr:
  assumes "extractall filename dd w0 = (Inr u, w')"
  shows "\<exists>ms. open_read w0 filename = Inr (TarGz ms)
           \<and> w' = w0\<lparr>fs := fs w'\<rparr>
           \<and> (case dd of
                 PStr d \<Rightarrow> extract_members (abspath (cwd w0) d) ms (fs w0) = (None, fs w')
               | _ \<Rightarrow> ms = [] \<and> fs w' = fs w0)"
proof (cases "open_read w0 filename")
  case (Inl e)
  with assms show ?thesis by (simp add: extractall_def)
next
  case (Inr c)
  with assms obtain ms where c: "c = TarGz ms"
    by (cases c) (auto simp: extractall_def)
  show ?thesis
  proof (cases dd)
    case (PStr d)
    with assms Inr c show ?thesis
      by (auto simp: extractall_def split: prod.splits option.splits)
  qed (use assms Inr c in \<open>auto simp: extractall_def split: if_splits\<close>)
qed

section \<open>Fetching from an object store\<close>

lemma open_write_Inr:
  assumes "open_write s c w = (Inr u, w1)"
  shows "w1 = w\<lparr>fs := (abspath (cwd w) s, File c) # fs w\<rparr>" and "abspath (cwd w) s \<noteq> []"
    and "s \<noteq> []" and "last (split_slash s) \<notin> {[], ''.'', ''..''}"
  using assms
  by (auto simp: open_write_def write_path_def split: if_splits)

lemma aws_fetch_Inr:
  assumes "aws_fetch_and_extract a filename w = (Inr u, w')"
  shows "\<exists>ms. s3 w (aws_bucket_name a, filename) = Some (TarGz ms)
           \<and> abspath (cwd w) filename \<noteq> []
           \<and> cwd w' = cwd w \<and> s3 w' = s3 w \<and> gcs w' = gcs w \<and> mongo w' = mongo w
           \<and> calls w' = calls w @ [S3Download (aws_bucket_name a) filename]
           \<and> (case aws_data_dir a of
                 PStr d \<Rightarrow>
                   extract_members (abspath (cwd w) d) ms
                     ((abspath (cwd w) filename, File (TarGz ms))
                        # (abspath (cwd w) filename, File (Bytes [])) # fs w) = (None, fs w')
               | _ \<Rightarrow> ms = [] \<and> fs w' = (abspath (cwd w) filename, File (TarGz ms))
                                          # (abspath (cwd w) filename, File (Bytes [])) # fs w)"
proof -
  let ?ap = "abspath (cwd w) filename"
  from assms obtain w1 where ow: "open_write filename (Bytes []) w = (Inr (), w1)"
    by (cases "open_write filename (Bytes []) w")
       (auto simp: aws_fetch_and_extract_def split: sum.splits)
  note o = open_write_Inr[OF ow]
  from assms ow obtain body where b: "s3 w (aws_bucket_name a, filename) = Some body"
    by (cases "s3 w (aws_bucket_name a, filename)")
       (auto simp: aws_fetch_and_extract_def Let_def o(1))
  let ?w3 = "w\<lparr>calls := calls w @ [S3Download (aws_bucket_name a) filename],
                fs := (?ap, File body) # (?ap, File (Bytes [])) # fs w\<rparr>"
  from assms ow b have ex: "extractall filename (aws_data_dir a) ?w3 = (Inr u, w')"
    by (simp add: aws_fetch_and_extract_def Let_def o(1))
  from extractall_Inr[OF ex] obtain ms where
    rd: "open_read ?w3 filename = Inr (TarGz ms)" and w': "w' = ?w3\<lparr>fs := fs w'\<rparr>"
    and em: "(case aws_data_dir a of
                 PStr d \<Rightarrow> extract_members (abspath (cwd ?w3) d) ms (fs ?w3) = (None, fs w')
               | _ \<Rightarrow> ms = [] \<and> fs w' = fs ?w3)"
    by blast
  from rd o have body: "body = TarGz ms"
    by (auto simp: open_read_def stat_def lookup_def split: if_splits)
  have fr: "cwd w' = cwd w \<and> s3 w' = s3 w \<and> gcs w' = gcs w \<and> mongo w' = mongo w
           \<and> calls w' = calls w @ [S3Download (aws_bucket_name a) filename]"
    by (subst w', simp)+
  from em have "(case aws_data_dir a of
                 PStr d \<Rightarrow>
                   extract_members (abspath (cwd w) d) ms
                     ((?ap, File (TarGz ms)) # (?ap, File (Bytes [])) # fs w) = (None, fs w')
               | _ \<Rightarrow> ms = [] \<and> fs w' = (?ap, File (TarGz ms)) # (?ap, File (Bytes [])) # fs w)"
    by (cases "aws_data_dir a") (simp_all add: body)
  with b body o(2) fr show ?thesis by blast
qed

lemma gcs_fetch_Inr:
  assumes "gcs_fetch_and_extract g filename w = (Inr u, w')"
  shows "\<exists>ms. gcs w (gcs_bucket_name g, filename) = Some (TarGz ms)
           \<and> abspath (cwd w) filename \<noteq> []
           \<and> cwd w' = cwd w \<and> s3 w' = s3 w \<and> gcs w' = gcs w \<and> mongo w' = mongo w
           \<and> calls w' = calls w @ [GCSDownload (gcs_bucket_name g) filename]
           \<and> (case gcs_data_dir g of
                 PStr d \<Rightarrow>
                   extract_members (abspath (cwd w) d) ms
                     ((abspath (cwd w) filename, File (TarGz ms))
                        # (abspath (cwd w) filename, File (Bytes [])) # fs w) = (None, fs w')
               | _ \<Rightarrow> ms = [] \<and> fs w' = (abspath (cwd w) filename, File (TarGz ms))
                                          # (abspath (cwd w) filename, File (Bytes [])) # fs w)"
proof -
  let ?ap = "abspath (cwd w) filename"
  from assms obtain w1 where ow: "open_write filename (Bytes []) w = (Inr (), w1)"
    by (cases "open_write filename (Bytes []) w")
       (auto simp: gcs_fetch_and_extract_def split: sum.splits)
  note o = open_write_Inr[OF ow]
  from assms ow obtain body where b: "gcs w (gcs_bucket_name g, filename) = Some body"
    by (cases "gcs w (gcs_bucket_name g, filename)")
       (auto simp: gcs_fetch_and_extract_def Let_def o(1))
  let ?w3 = "w\<lparr>calls := calls w @ [GCSDownload (gcs_bucket_name g) filename],
                fs := (?ap, File body) # (?ap, File (Bytes [])) # fs w\<rparr>"
  from assms ow b have ex: "extractall filename (gcs_data_dir g) ?w3 = (Inr u, w')"
    by (simp add: gcs_fetch_and_extract_def Let_def o(1))
  from extractall_Inr[OF ex] obtain ms where
    rd: "open_read ?w3 filename = Inr (TarGz ms)" and w': "w' = ?w3\<lparr>fs := fs w'\<rparr>"
    and em: "(case gcs_data_dir g of
                 PStr d \<Rightarrow> extract_members (abspath (cwd ?w3) d) ms (fs ?w3) = (None, fs w')
               | _ \<Rightarrow> ms = [] \<and> fs w' = fs ?w3)"
    by blast
  from rd o have body: "body = TarGz ms"
    by (auto simp: open_read_def stat_def lookup_def split: if_splits)
  have fr: "cwd w' = cwd w \<and> s3 w' = s3 w \<and> gcs w' = gcs w \<and> mongo w' = mongo w
           \<and> calls w' = calls w @ [GCSDownload (gcs_bucket_name g) filename]"
    by (subst w', simp)+
  from em have "(case gcs_data_dir g of
                 PStr d \<Rightarrow>
                   extract_members (abspath (cwd w) d) ms
                     ((?ap, File (TarGz ms)) # (?ap, File (Bytes [])) # fs w) = (None, fs w')
               | _ \<Rightarrow> ms = [] \<and> fs w' = (?ap, File (TarGz ms)) # (?ap, File (Bytes [])) # fs w)"
    by (cases "gcs_data_dir g") (simp_all add: body)
  with b body o(2) fr show ?thesis by blast
qed

lemma fetched_files:
  assumes ex: "(case dd of
                  PStr d \<Rightarrow> extract_members (abspath (cwd w) d) ms t0 = (None, t')
                | _ \<Rightarrow> ms = [] \<and> t' = t0)"
    and t0: "t0 = (ap, File (TarGz ms)) # (ap, File (Bytes [])) # t"
    and ap: "ap \<noteq> []"
  shows "ap \<notin> set (extraction_targets w dd ms) \<longrightarrow> lookup t' ap = Some (File (TarGz ms))"
    and "\<forall>p. p \<noteq> ap \<longrightarrow>
           lookup t' p = lookup t p
           \<or> p \<in> set (extraction_targets w dd ms)
           \<or> (lookup t p = None \<and> lookup t' p = Some Dir
               \<and> (\<exists>tg \<in> set (extraction_targets w dd ms). strict_prefix p tg))"
    and "distinct (extraction_targets w dd ms) \<longrightarrow>
           (\<forall>d m. dd = PStr d \<and> m \<in> set ms \<longrightarrow>
              lookup t' (norm_from (abspath (cwd w) d) (fst m)) = Some (snd m))"
proof -
  have l0: "lookup t0 ap = Some (File (TarGz ms))"
    using ap by (simp add: t0 lookup_def)
  have l1: "\<And>p. p \<noteq> ap \<Longrightarrow> lookup t0 p = lookup t p"
    by (simp add: t0 lookup_def)
  show "ap \<notin> set (extraction_targets w dd ms) \<longrightarrow> lookup t' ap = Some (File (TarGz ms))"
  proof (cases dd)
    case (PStr d)
    with ex have e: "extract_members (abspath (cwd w) d) ms t0 = (None, t')" by simp
    from extract_members_keeps[OF e l0] PStr show ?thesis
      by (auto simp: extraction_targets_def)
  qed (use ex l0 in auto)
  show "\<forall>p. p \<noteq> ap \<longrightarrow>
           lookup t' p = lookup t p
           \<or> p \<in> set (extraction_targets w dd ms)
           \<or> (lookup t p = None \<and> lookup t' p = Some Dir
               \<and> (\<exists>tg \<in> set (extraction_targets w dd ms). strict_prefix p tg))"
  proof (cases dd)
    case (PStr d)
    with ex have e: "extract_members (abspath (cwd w) d) ms t0 = (None, t')" by simp
    show ?thesis
    proof (intro allI impI)
      fix p assume p: "p \<noteq> ap"
      from extract_members_frame[OF e, of p] l1[OF p] PStr
      show "lookup t' p = lookup t p
           \<or> p \<in> set (extraction_targets w dd ms)
           \<or> (lookup t p = None \<and> lookup t' p = Some Dir
               \<and> (\<exists>tg \<in> set (extraction_targets w dd ms). strict_prefix p tg))"
        by (auto simp: extraction_targets_def)
    qed
  qed (use ex l1 in auto)
  show "distinct (extraction_targets w dd ms) \<longrightarrow>
           (\<forall>d m. dd = PStr d \<and> m \<in> set ms \<longrightarrow>
              lookup t' (norm_from (abspath (cwd w) d) (fst m)) = Some (snd m))"
  proof (cases dd)
    case (PStr d)
    with ex have e: "extract_members (abspath (cwd w) d) ms t0 = (None, t')" by simp
    from extract_members_extracted[OF e] PStr show ?thesis
      by (auto simp: extraction_targets_def)
  qed auto
qed

lemma aws_fetch_models:
  "fst (aws_fetch_and_extract aws_models ''model_v1.tar.gz'' w_saved_aws) = Inr ()"
  by (simp add: aws_fetch_and_extract_def extractall_def extract_member_def
        w_saved_aws_def model_v1_members_def aws_models_def fs_eval w_models_def)

lemma gcs_fetch_models:
  "fst (gcs_fetch_and_extract gcs_models ''model_v1.tar.gz'' w_saved_gcs) = Inr ()"
  by (simp add: gcs_fetch_and_extract_def extractall_def extract_member_def
        w_saved_gcs_def model_v1_members_def gcs_models_def fs_eval w_models_def)

lemma aws_fetch_self:
  "fst (aws_fetch_and_extract aws_here ''a.tar.gz'' w_self) = Inr ()"
  "lookup (fs (snd (aws_fetch_and_extract aws_here ''a.tar.gz'' w_self))) [''home'', ''a.tar.gz'']
     = Some (File (Bytes ''hello''))"
  by (simp_all add: aws_fetch_and_extract_def extractall_def extract_member_def
        w_self_def self_members_def aws_here_def fs_eval)

section \<open>The claims\<close>

text \<open>
  Claim C2. When the path given to save_tar does not exist or is no directory, each of
  the three persistors raises the ValueError that says so, and the world it leaves is
  the world it found: no request was sent to a remote store and nothing was written.
\<close>

theorem save_tar_rejects_missing_directory:
  assumes "\<not> isdir w target_dir"
  shows "aws_save_tar a target_dir w
           = (Inl (ValueError (''Target directory '' @ quoted target_dir @ '' not found.'')), w)
       \<and> gcs_save_tar g target_dir w
           = (Inl (ValueError (''target_dir '' @ repr_text target_dir @ '' not found.'')), w)
       \<and> mongo_save_tar js m target_dir w
           = (Inl (ValueError (''Target directory '' @ quoted target_dir @ '' not found.'')), w)"
  using assms by (simp add: aws_save_tar_def gcs_save_tar_def mongo_save_tar_def)

theorem save_tar_rejects_missing_directory_witness:
  "\<not> isdir w_home ''notes.txt''
   \<and> aws_save_tar aws_models ''notes.txt'' w_home
       = (Inl (ValueError (''Target directory '' @ quoted ''notes.txt'' @ '' not found.'')), w_home)
   \<and> gcs_save_tar gcs_models ''notes.txt'' w_home
       = (Inl (ValueError (''target_dir '' @ repr_text ''notes.txt'' @ '' not found.'')), w_home)
   \<and> mongo_save_tar json_fragment mongo_models ''notes.txt'' w_home
       = (Inl (ValueError (''Target directory '' @ quoted ''notes.txt'' @ '' not found.'')), w_home)"
proof -
  have h: "\<not> isdir w_home ''notes.txt''"
    by (simp add: isdir_def stat_def lookup_def abspath_def w_home_def)
  show ?thesis
    using h save_tar_rejects_missing_directory
                [OF h, of aws_models gcs_models json_fragment mongo_models]
    by simp
qed

text \<open>
  Claim C4. When the configuration has no \<open>storage\<close> key, get_persistor raises a
  KeyError and does nothing else; its message says that no persistent storage is
  specified and lists aws, gcs and mongodb.
\<close>

theorem get_persistor_without_storage:
  assumes "config ''storage'' = None"
  shows "\<exists>msg. get_persistor config w = (Inl (KeyError msg), w)
           \<and> msg = ''No persistent storage specified. Supported values are aws, gcs, mongodb''
           \<and> sublist ''storage'' msg \<and> sublist ''aws'' msg \<and> sublist ''gcs'' msg
           \<and> sublist ''mongodb'' msg"
proof -
  let ?msg = "''No persistent storage specified. Supported values are aws, gcs, mongodb''"
  have run: "get_persistor config w = (Inl (KeyError ?msg), w)"
    using assms by (simp add: get_persistor_def)
  have "?msg = ''No persistent '' @ ''storage'' @ '' specified. Supported values are aws, gcs, mongodb''"
    by simp
  then have s1: "sublist ''storage'' ?msg"
    by (metis sublist_appendI)
  have "?msg = ''No persistent storage specified. Supported values are '' @ ''aws'' @ '', gcs, mongodb''"
    by simp
  then have s2: "sublist ''aws'' ?msg"
    by (metis sublist_appendI)
  have "?msg = ''No persistent storage specified. Supported values are aws, '' @ ''gcs'' @ '', mongodb''"
    by simp
  then have s3: "sublist ''gcs'' ?msg"
    by (metis sublist_appendI)
  have "?msg = ''No persistent storage specified. Supported values are aws, gcs, '' @ ''mongodb'' @ []"
    by simp
  then have s4: "sublist ''mongodb'' ?msg"
    by (metis sublist_appendI)
  from run s1 s2 s3 s4 show ?thesis by blast
qed

theorem get_persistor_without_storage_witness:
  "config_without_storage ''storage'' = None
   \<and> (\<exists>msg. get_persistor config_without_storage w_home = (Inl (KeyError msg), w_home)
           \<and> msg = ''No persistent storage specified. Supported values are aws, gcs, mongodb''
           \<and> sublist ''storage'' msg \<and> sublist ''aws'' msg \<and> sublist ''gcs'' msg
           \<and> sublist ''mongodb'' msg)"
proof -
  have h: "config_without_storage ''storage'' = None"
    by (simp add: config_without_storage_def)
  show ?thesis
    using h get_persistor_without_storage [of config_without_storage w_home] by blast
qed

text \<open>
  Claim C5. When \<open>storage\<close> is set to a value that is none of 'aws', 'gcs' and
  'mongodb', get_persistor returns None: it raises nothing, builds no persistor and
  sends no request.
\<close>

theorem get_persistor_unrecognized_storage:
  assumes "config ''storage'' = Some v"
    and "v \<noteq> PStr ''aws''" and "v \<noteq> PStr ''gcs''" and "v \<noteq> PStr ''mongodb''"
  shows "get_persistor config w = (Inr None, w)"
  using assms by (simp add: get_persistor_def getitem_def)

theorem get_persistor_unrecognized_storage_witness:
  "config_azure ''storage'' = Some (PStr ''azure'')
   \<and> PStr ''azure'' \<noteq> PStr ''aws'' \<and> PStr ''azure'' \<noteq> PStr ''gcs''
   \<and> PStr ''azure'' \<noteq> PStr ''mongodb''
   \<and> get_persistor config_azure w_home = (Inr None, w_home)"
proof -
  have h: "config_azure ''storage'' = Some (PStr ''azure'')"
    by (simp add: config_azure_def)
  show ?thesis
    using h get_persistor_unrecognized_storage [of config_azure "PStr ''azure''" w_home] by simp
qed

text \<open>
  Claim C8. A save_tar of an object store that returns has uploaded exactly one object:
  the archive of the directory, under the key that is the base name of the directory
  followed by \<open>.tar.gz\<close>, in the bucket of the persistor. A save_tar that raises has
  uploaded nothing.
\<close>

theorem save_tar_uploads_under_base_name:
  "(aws_save_tar a target_dir w = (Inr u, w') \<longrightarrow>
        s3 w' = (s3 w)((aws_bucket_name a, basename target_dir @ ''.tar.gz'')
                         \<mapsto> TarGz (bundle_members w target_dir))
      \<and> calls w' = calls w @ [S3Put (aws_bucket_name a) (basename target_dir @ ''.tar.gz'')])
   \<and> (gcs_save_tar g target_dir w = (Inr u, w') \<longrightarrow>
        gcs w' = (gcs w)((gcs_bucket_name g, basename target_dir @ ''.tar.gz'')
                           \<mapsto> TarGz (bundle_members w target_dir))
      \<and> calls w' = calls w @ [GCSUpload (gcs_bucket_name g) (basename target_dir @ ''.tar.gz'')])
   \<and> (aws_save_tar a target_dir w = (Inl e, w') \<longrightarrow> s3 w' = s3 w \<and> calls w' = calls w)
   \<and> (gcs_save_tar g target_dir w = (Inl e, w') \<longrightarrow> gcs w' = gcs w \<and> calls w' = calls w)"
proof (intro conjI impI)
  assume "aws_save_tar a target_dir w = (Inr u, w')"
  from aws_save_tar_Inr[OF this]
  show "s3 w' = (s3 w)((aws_bucket_name a, basename target_dir @ ''.tar.gz'')
                         \<mapsto> TarGz (bundle_members w target_dir))"
    and "calls w' = calls w @ [S3Put (aws_bucket_name a) (basename target_dir @ ''.tar.gz'')]"
    by (simp_all add: archive_key_def)
next
  assume "gcs_save_tar g target_dir w = (Inr u, w')"
  from gcs_save_tar_Inr[OF this]
  show "gcs w' = (gcs w)((gcs_bucket_name g, basename target_dir @ ''.tar.gz'')
                           \<mapsto> TarGz (bundle_members w target_dir))"
    and "calls w' = calls w @ [GCSUpload (gcs_bucket_name g) (basename target_dir @ ''.tar.gz'')]"
    by (simp_all add: archive_key_def)
next
  assume "aws_save_tar a target_dir w = (Inl e, w')"
  from aws_save_tar_Inl[OF this] show "s3 w' = s3 w" and "calls w' = calls w" by simp_all
next
  assume "gcs_save_tar g target_dir w = (Inl e, w')"
  from gcs_save_tar_Inl[OF this] show "gcs w' = gcs w" and "calls w' = calls w" by simp_all
qed

theorem save_tar_uploads_under_base_name_witness:
  "aws_save_tar aws_models ''models/model_v1'' w_models = (Inr (), w_saved_aws)
   \<and> s3 w_saved_aws = (s3 w_models)((PStr ''bucket'', ''model_v1.tar.gz'') \<mapsto> TarGz model_v1_members)
   \<and> calls w_saved_aws = calls w_models @ [S3Put (PStr ''bucket'') ''model_v1.tar.gz'']
   \<and> gcs_save_tar gcs_models ''models/model_v1'' w_models = (Inr (), w_saved_gcs)
   \<and> gcs w_saved_gcs = (gcs w_models)((PStr ''bucket'', ''model_v1.tar.gz'') \<mapsto> TarGz model_v1_members)
   \<and> calls w_saved_gcs = calls w_models @ [GCSUpload (PStr ''bucket'') ''model_v1.tar.gz'']
   \<and> aws_save_tar aws_models ''model_v1'' w_in_models = (Inl OSError, w_in_models)
   \<and> gcs_save_tar gcs_models ''model_v1'' w_in_models = (Inl OSError, w_in_models)"
proof -
  have b: "basename ''models/model_v1'' @ ''.tar.gz'' = ''model_v1.tar.gz''"
    by (simp add: basename_def)
  have n: "aws_bucket_name aws_models = PStr ''bucket''" "gcs_bucket_name gcs_models = PStr ''bucket''"
    by (simp_all add: aws_models_def gcs_models_def)
  show ?thesis
    using save_tar_uploads_under_base_name
            [of aws_models "''models/model_v1''" w_models "()" w_saved_aws gcs_models OSError]
          save_tar_uploads_under_base_name
            [of aws_models "''models/model_v1''" w_models "()" w_saved_gcs gcs_models OSError]
          aws_save_models gcs_save_models aws_save_bare_name gcs_save_bare_name
    by (simp add: b n bundle_members_models)
qed

text \<open>
  Claim C10. A save_tar of an object store that returns has left the archive in the
  working directory of the process, as the file named by the base name of the directory
  followed by \<open>.tar.gz\<close>, whatever the directory above \<open>target_dir\<close> and whatever the
  data directory of the persistor: after the upload the file is there and holds what
  was uploaded, the working directory is the same, and no other path has changed.
\<close>

theorem save_tar_leaves_archive_in_cwd:
  "(aws_save_tar a target_dir w = (Inr u, w') \<longrightarrow>
        cwd w' = cwd w
      \<and> lookup (fs w') (cwd w @ [basename target_dir @ ''.tar.gz''])
          = Some (File (TarGz (bundle_members w target_dir)))
      \<and> s3 w' (aws_bucket_name a, basename target_dir @ ''.tar.gz'')
          = Some (TarGz (bundle_members w target_dir))
      \<and> (\<forall>p. p \<noteq> cwd w @ [basename target_dir @ ''.tar.gz''] \<longrightarrow>
               lookup (fs w') p = lookup (fs w) p))
   \<and> (gcs_save_tar g target_dir w = (Inr u, w') \<longrightarrow>
        cwd w' = cwd w
      \<and> lookup (fs w') (cwd w @ [basename target_dir @ ''.tar.gz''])
          = Some (File (TarGz (bundle_members w target_dir)))
      \<and> gcs w' (gcs_bucket_name g, basename target_dir @ ''.tar.gz'')
          = Some (TarGz (bundle_members w target_dir))
      \<and> (\<forall>p. p \<noteq> cwd w @ [basename target_dir @ ''.tar.gz''] \<longrightarrow>
               lookup (fs w') p = lookup (fs w) p))"
proof (intro conjI impI)
  assume "aws_save_tar a target_dir w = (Inr u, w')"
  note r = aws_save_tar_Inr[OF this]
  from r show "cwd w' = cwd w" by simp
  from r show "lookup (fs w') (cwd w @ [basename target_dir @ ''.tar.gz''])
                 = Some (File (TarGz (bundle_members w target_dir)))"
    by (simp add: lookup_def local_archive_def archive_key_def)
  from r show "s3 w' (aws_bucket_name a, basename target_dir @ ''.tar.gz'')
                 = Some (TarGz (bundle_members w target_dir))"
    by (simp add: archive_key_def)
  from r show "\<forall>p. p \<noteq> cwd w @ [basename target_dir @ ''.tar.gz''] \<longrightarrow>
                 lookup (fs w') p = lookup (fs w) p"
    by (simp add: lookup_def local_archive_def archive_key_def)
next
  assume "gcs_save_tar g target_dir w = (Inr u, w')"
  note r = gcs_save_tar_Inr[OF this]
  from r show "cwd w' = cwd w" by simp
  from r show "lookup (fs w') (cwd w @ [basename target_dir @ ''.tar.gz''])
                 = Some (File (TarGz (bundle_members w target_dir)))"
    by (simp add: lookup_def local_archive_def archive_key_def)
  from r show "gcs w' (gcs_bucket_name g, basename target_dir @ ''.tar.gz'')
                 = Some (TarGz (bundle_members w target_dir))"
    by (simp add: archive_key_def)
  from r show "\<forall>p. p \<noteq> cwd w @ [basename target_dir @ ''.tar.gz''] \<longrightarrow>
                 lookup (fs w') p = lookup (fs w) p"
    by (simp add: lookup_def local_archive_def archive_key_def)
qed

theorem save_tar_leaves_archive_in_cwd_witness:
  "aws_save_tar aws_models ''models/model_v1'' w_models = (Inr (), w_saved_aws)
   \<and> cwd w_saved_aws = [''home'']
   \<and> lookup (fs w_saved_aws) [''home'', ''model_v1.tar.gz''] = Some (File (TarGz model_v1_members))
   \<and> s3 w_saved_aws (PStr ''bucket'', ''model_v1.tar.gz'') = Some (TarGz model_v1_members)
   \<and> lookup (fs w_saved_aws) [''home'', ''models'', ''model_v1'', ''ner'', ''model'']
       = lookup (fs w_models) [''home'', ''models'', ''model_v1'', ''ner'', ''model'']
   \<and> gcs_save_tar gcs_models ''models/model_v1'' w_models = (Inr (), w_saved_gcs)
   \<and> cwd w_saved_gcs = [''home'']
   \<and> lookup (fs w_saved_gcs) [''home'', ''model_v1.tar.gz''] = Some (File (TarGz model_v1_members))
   \<and> gcs w_saved_gcs (PStr ''bucket'', ''model_v1.tar.gz'') = Some (TarGz model_v1_members)
   \<and> lookup (fs w_saved_gcs) [''home'', ''models'', ''model_v1'', ''ner'', ''model'']
       = lookup (fs w_models) [''home'', ''models'', ''model_v1'', ''ner'', ''model'']"
proof -
  have b: "basename ''models/model_v1'' @ ''.tar.gz'' = ''model_v1.tar.gz''"
    by (simp add: basename_def)
  have n: "aws_bucket_name aws_models = PStr ''bucket''" "gcs_bucket_name gcs_models = PStr ''bucket''"
    by (simp_all add: aws_models_def gcs_models_def)
  have c: "cwd w_models = [''home'']" by (simp add: w_models_def)
  show ?thesis
    using save_tar_leaves_archive_in_cwd
            [of aws_models "''models/model_v1''" w_models "()" w_saved_aws gcs_models]
          save_tar_leaves_archive_in_cwd
            [of aws_models "''models/model_v1''" w_models "()" w_saved_gcs gcs_models]
          aws_save_models gcs_save_models
    by (simp add: b n c bundle_members_models)
qed

text \<open>
  Claim C3, as stated, fails on S3: the local file is opened for writing before the
  download is asked for. In /home, with an empty bucket, fetching model_v1.tar.gz raises
  the ClientError and leaves an empty file /home/model_v1.tar.gz that was not there
  before; fetching notes.txt raises it too and has emptied /home/notes.txt.
\<close>

theorem fetch_missing_object_writes_local_file:
  "s3 w_home (aws_bucket_name aws_models, ''model_v1.tar.gz'') = None
   \<and> lookup (fs w_home) [''home'', ''model_v1.tar.gz''] = None
   \<and> fst (aws_fetch_and_extract aws_models ''model_v1.tar.gz'' w_home) = Inl ClientError
   \<and> lookup (fs (snd (aws_fetch_and_extract aws_models ''model_v1.tar.gz'' w_home)))
        [''home'', ''model_v1.tar.gz''] = Some (File (Bytes []))
   \<and> s3 w_home (aws_bucket_name aws_models, ''notes.txt'') = None
   \<and> lookup (fs w_home) [''home'', ''notes.txt''] = Some (File (Bytes ''hello''))
   \<and> fst (aws_fetch_and_extract aws_models ''notes.txt'' w_home) = Inl ClientError
   \<and> lookup (fs (snd (aws_fetch_and_extract aws_models ''notes.txt'' w_home)))
        [''home'', ''notes.txt''] = Some (File (Bytes []))"
  by (simp add: aws_fetch_and_extract_def fs_eval w_home_def aws_models_def)

text \<open>
  Claim C3, amended. A fetch of a name that has no object or document fails. The
  document store raises the ValueError that the collection has no model of that name
  after its one find_one request, and touches no file. An object store raises an OSError
  and does nothing at all when the local file of that name cannot be opened for writing;
  otherwise it asks for the download and raises the error of its client (ClientError on
  S3, NotFound on GCS), and the file of that name is left empty, created or truncated,
  while every other local path is as before and nothing is extracted.
\<close>

theorem fetch_missing_object:
  "(s3 w (aws_bucket_name a, filename) = None \<longrightarrow>
      (\<exists>e w'. aws_fetch_and_extract a filename w = (Inl e, w')
         \<and> (e = OSError \<or> e = ClientError)
         \<and> (e = OSError \<longrightarrow> w' = w)
         \<and> (e = ClientError \<longrightarrow>
               lookup (fs w') (abspath (cwd w) filename) = Some (File (Bytes []))
             \<and> calls w' = calls w @ [S3Download (aws_bucket_name a) filename])
         \<and> (\<forall>p. p \<noteq> abspath (cwd w) filename \<longrightarrow> lookup (fs w') p = lookup (fs w) p)))
   \<and> (gcs w (gcs_bucket_name g, filename) = None \<longrightarrow>
      (\<exists>e w'. gcs_fetch_and_extract g filename w = (Inl e, w')
         \<and> (e = OSError \<or> e = NotFound)
         \<and> (e = OSError \<longrightarrow> w' = w)
         \<and> (e = NotFound \<longrightarrow>
               lookup (fs w') (abspath (cwd w) filename) = Some (File (Bytes []))
             \<and> calls w' = calls w @ [GCSDownload (gcs_bucket_name g) filename])
         \<and> (\<forall>p. p \<noteq> abspath (cwd w) filename \<longrightarrow> lookup (fs w') p = lookup (fs w) p)))
   \<and> (find_one m (basename model_dir) w = None \<longrightarrow>
        mongo_fetch_and_extract js m model_dir w
          = (Inl (ValueError (''Collection does not contain a model for given name ''
                                @ quoted (basename model_dir))),
             w\<lparr>calls := calls w @ [MongoFindOne (mongo_uri m) (collection_name m)]\<rparr>))"
proof (intro conjI impI)
  assume none: "s3 w (aws_bucket_name a, filename) = None"
  show "\<exists>e w'. aws_fetch_and_extract a filename w = (Inl e, w')
         \<and> (e = OSError \<or> e = ClientError)
         \<and> (e = OSError \<longrightarrow> w' = w)
         \<and> (e = ClientError \<longrightarrow>
               lookup (fs w') (abspath (cwd w) filename) = Some (File (Bytes []))
             \<and> calls w' = calls w @ [S3Download (aws_bucket_name a) filename])
         \<and> (\<forall>p. p \<noteq> abspath (cwd w) filename \<longrightarrow> lookup (fs w') p = lookup (fs w) p)"
  proof (cases "open_write filename (Bytes []) w")
    case (Pair r w1)
    show ?thesis
    proof (cases r)
      case (Inl e)
      with Pair have "e = OSError \<and> w1 = w"
        by (auto simp: open_write_def write_path_def split: if_splits)
      with Pair Inl show ?thesis
        by (simp add: aws_fetch_and_extract_def)
    next
      case (Inr u)
      with Pair have w1: "w1 = w\<lparr>fs := (abspath (cwd w) filename, File (Bytes [])) # fs w\<rparr>"
        and ne: "abspath (cwd w) filename \<noteq> []"
        by (auto simp: open_write_def write_path_def split: if_splits)
      with Pair Inr none show ?thesis
        by (simp add: aws_fetch_and_extract_def Let_def lookup_def)
    qed
  qed
next
  assume none: "gcs w (gcs_bucket_name g, filename) = None"
  show "\<exists>e w'. gcs_fetch_and_extract g filename w = (Inl e, w')
         \<and> (e = OSError \<or> e = NotFound)
         \<and> (e = OSError \<longrightarrow> w' = w)
         \<and> (e = NotFound \<longrightarrow>
               lookup (fs w') (abspath (cwd w) filename) = Some (File (Bytes []))
             \<and> calls w' = calls w @ [GCSDownload (gcs_bucket_name g) filename])
         \<and> (\<forall>p. p \<noteq> abspath (cwd w) filename \<longrightarrow> lookup (fs w') p = lookup (fs w) p)"
  proof (cases "open_write filename (Bytes []) w")
    case (Pair r w1)
    show ?thesis
    proof (cases r)
      case (Inl e)
      with Pair have "e = OSError \<and> w1 = w"
        by (auto simp: open_write_def write_path_def split: if_splits)
      with Pair Inl show ?thesis
        by (simp add: gcs_fetch_and_extract_def)
    next
      case (Inr u)
      with Pair have w1: "w1 = w\<lparr>fs := (abspath (cwd w) filename, File (Bytes [])) # fs w\<rparr>"
        and ne: "abspath (cwd w) filename \<noteq> []"
        by (auto simp: open_write_def write_path_def split: if_splits)
      with Pair Inr none show ?thesis
        by (simp add: gcs_fetch_and_extract_def Let_def lookup_def)
    qed
  qed
next
  assume "find_one m (basename model_dir) w = None"
  then show "mongo_fetch_and_extract js m model_dir w
          = (Inl (ValueError (''Collection does not contain a model for given name ''
                                @ quoted (basename model_dir))),
             w\<lparr>calls := calls w @ [MongoFindOne (mongo_uri m) (collection_name m)]\<rparr>)"
    by (simp add: mongo_fetch_and_extract_def Let_def)
qed

theorem fetch_missing_object_witness:
  "s3 w_home (aws_bucket_name aws_models, ''model_v1.tar.gz'') = None
   \<and> gcs w_home (gcs_bucket_name gcs_models, ''model_v1.tar.gz'') = None
   \<and> find_one mongo_models (basename ''models/model_v1'') w_home = None
   \<and> fst (aws_fetch_and_extract aws_models ''model_v1.tar.gz'' w_home) = Inl ClientError
   \<and> fst (gcs_fetch_and_extract gcs_models ''model_v1.tar.gz'' w_home) = Inl NotFound
   \<and> lookup (fs (snd (aws_fetch_and_extract aws_models ''model_v1.tar.gz'' w_home)))
         [''home'', ''notes.txt''] = Some (File (Bytes ''hello''))
   \<and> lookup (fs (snd (gcs_fetch_and_extract gcs_models ''model_v1.tar.gz'' w_home)))
         [''home'', ''notes.txt''] = Some (File (Bytes ''hello''))
   \<and> mongo_fetch_and_extract json_fragment mongo_models ''models/model_v1'' w_home
       = (Inl (ValueError (''Collection does not contain a model for given name ''
                             @ quoted ''model_v1'')),
          w_home\<lparr>calls := [MongoFindOne (PStr ''mongodb://host/db'') (PStr ''models'')]\<rparr>)"
proof -
  have h1: "s3 w_home (aws_bucket_name aws_models, ''model_v1.tar.gz'') = None"
    by (simp add: w_home_def)
  have h2: "gcs w_home (gcs_bucket_name gcs_models, ''model_v1.tar.gz'') = None"
    by (simp add: w_home_def)
  have h3: "find_one mongo_models (basename ''models/model_v1'') w_home = None"
    by (simp add: find_one_def w_home_def)
  have e1: "fst (aws_fetch_and_extract aws_models ''model_v1.tar.gz'' w_home) = Inl ClientError"
    by (simp add: aws_fetch_and_extract_def fs_eval w_home_def)
  have e2: "fst (gcs_fetch_and_extract gcs_models ''model_v1.tar.gz'' w_home) = Inl NotFound"
    by (simp add: gcs_fetch_and_extract_def fs_eval w_home_def)
  have p: "abspath (cwd w_home) ''model_v1.tar.gz'' = [''home'', ''model_v1.tar.gz'']"
    by (simp add: abspath_def w_home_def)
  have b: "basename ''models/model_v1'' = ''model_v1''"
    by (simp add: basename_def)
  have c: "calls w_home = []" "mongo_uri mongo_models = PStr ''mongodb://host/db''"
          "collection_name mongo_models = PStr ''models''"
    by (simp_all add: w_home_def mongo_models_def)
  have n: "lookup (fs w_home) [''home'', ''notes.txt''] = Some (File (Bytes ''hello''))"
    by (simp add: lookup_def w_home_def)
  from fetch_missing_object
         [of w_home aws_models "''model_v1.tar.gz''" gcs_models mongo_models
             "''models/model_v1''" json_fragment]
       h1 h2 h3
  have "(\<exists>e w'. aws_fetch_and_extract aws_models ''model_v1.tar.gz'' w_home = (Inl e, w')
           \<and> lookup (fs w') [''home'', ''notes.txt''] = lookup (fs w_home) [''home'', ''notes.txt''])"
    and "(\<exists>e w'. gcs_fetch_and_extract gcs_models ''model_v1.tar.gz'' w_home = (Inl e, w')
           \<and> lookup (fs w') [''home'', ''notes.txt''] = lookup (fs w_home) [''home'', ''notes.txt''])"
    and "mongo_fetch_and_extract json_fragment mongo_models ''models/model_v1'' w_home
       = (Inl (ValueError (''Collection does not contain a model for given name ''
                             @ quoted ''model_v1'')),
          w_home\<lparr>calls := [MongoFindOne (PStr ''mongodb://host/db'') (PStr ''models'')]\<rparr>)"
    unfolding p b by (auto simp: c)
  with h1 h2 h3 e1 e2 n show ?thesis by auto
qed

text \<open>
  Claim C6. When the directory exists, every data file is there and the \<open>.json\<close> ones
  hold JSON, save_tar of the document store returns; and whenever it returns, it has
  sent one insert and the collection has one more document, the last, in which
  \<open>model_name\<close> is the base name of the directory and every data file has a field named
  by its relative path: the parsed value of a \<open>.json\<close> file, the content of any other
  as a binary.
\<close>

theorem mongo_save_tar_document:
  "(isdir w target_dir
      \<and> (\<forall>f \<in> set data_file_names.
            \<exists>c. open_read w (target_dir @ ''/'' @ f) = Inr c
               \<and> (snd (splitext f) = ''.json'' \<longrightarrow> decodes js c))
      \<longrightarrow> (\<exists>w'. mongo_save_tar js m target_dir w = (Inr (), w')))
   \<and> (mongo_save_tar js m target_dir w = (Inr u, w') \<longrightarrow>
        (\<exists>d. w' = w\<lparr>mongo := (mongo w)((mongo_uri m, collection_name m)
                                   := mongo w (mongo_uri m, collection_name m) @ [d]),
                     calls := calls w @ [MongoInsert (mongo_uri m) (collection_name m)]\<rparr>
            \<and> map_of d ''model_name'' = Some (FVal (PStr (basename target_dir)))
            \<and> (\<forall>f \<in> set data_file_names.
                  \<exists>c. open_read w (target_dir @ ''/'' @ f) = Inr c
                     \<and> (if snd (splitext f) = ''.json''
                         then \<exists>b v. c = Bytes b \<and> json_load js b = Some v
                                   \<and> map_of d f = Some (FVal v)
                         else map_of d f = Some (FBinary c)))))"
proof (intro conjI impI)
  assume a: "isdir w target_dir
      \<and> (\<forall>f \<in> set data_file_names.
            \<exists>c. open_read w (target_dir @ ''/'' @ f) = Inr c
               \<and> (snd (splitext f) = ''.json'' \<longrightarrow> decodes js c))"
  then obtain d where
    "read_data_files js target_dir data_file_names
       [(''model_name'', FVal (PStr (basename target_dir)))] w = Inr d"
    using read_data_files_total by blast
  with a show "\<exists>w'. mongo_save_tar js m target_dir w = (Inr (), w')"
    by (simp add: mongo_save_tar_def Let_def)
next
  assume s: "mongo_save_tar js m target_dir w = (Inr u, w')"
  let ?d0 = "[(''model_name'', FVal (PStr (basename target_dir)))]"
  let ?k = "(mongo_uri m, collection_name m)"
  from s obtain d where rd: "read_data_files js target_dir data_file_names ?d0 w = Inr d"
    and w': "w' = insert_document m d w"
    by (auto simp: mongo_save_tar_def Let_def split: if_splits sum.splits)
  note r = read_data_files_Inr[OF rd]
  have names: "''model_name'' \<notin> set data_file_names" "''_id'' \<notin> set data_file_names"
    by (simp_all add: data_file_names_def)
  from r names have mn: "map_of d ''model_name'' = Some (FVal (PStr (basename target_dir)))"
    and noid: "map_of d ''_id'' = None"
    by simp_all
  let ?d = "(''_id'', FObjectId (length (mongo w ?k))) # d"
  from w' noid have 1: "w' = w\<lparr>mongo := (mongo w)(?k := mongo w ?k @ [?d]),
                     calls := calls w @ [MongoInsert (mongo_uri m) (collection_name m)]\<rparr>"
    by (simp add: insert_document_def Let_def)
  from mn have 2: "map_of ?d ''model_name'' = Some (FVal (PStr (basename target_dir)))"
    by simp
  have 3: "\<forall>f \<in> set data_file_names.
                  \<exists>c. open_read w (target_dir @ ''/'' @ f) = Inr c
                     \<and> (if snd (splitext f) = ''.json''
                         then \<exists>b v. c = Bytes b \<and> json_load js b = Some v
                                   \<and> map_of ?d f = Some (FVal v)
                         else map_of ?d f = Some (FBinary c))"
  proof
    fix f assume f: "f \<in> set data_file_names"
    with names have ne: "f \<noteq> ''_id''" by auto
    from r f obtain c where c: "open_read w (target_dir @ ''/'' @ f) = Inr c"
      and dec: "snd (splitext f) = ''.json'' \<longrightarrow> decodes js c"
      and st: "map_of d f = Some (stored_field js f c)"
      by blast
    from dec st ne have "if snd (splitext f) = ''.json''
                         then \<exists>b v. c = Bytes b \<and> json_load js b = Some v
                                   \<and> map_of ?d f = Some (FVal v)
                         else map_of ?d f = Some (FBinary c)"
      by (auto simp: decodes_def stored_field_def split: content.splits)
    with c show "\<exists>c. open_read w (target_dir @ ''/'' @ f) = Inr c
                     \<and> (if snd (splitext f) = ''.json''
                         then \<exists>b v. c = Bytes b \<and> json_load js b = Some v
                                   \<and> map_of ?d f = Some (FVal v)
                         else map_of ?d f = Some (FBinary c))"
      by blast
  qed
  from 1 2 3 show "\<exists>d. w' = w\<lparr>mongo := (mongo w)(?k := mongo w ?k @ [d]),
                     calls := calls w @ [MongoInsert (mongo_uri m) (collection_name m)]\<rparr>
            \<and> map_of d ''model_name'' = Some (FVal (PStr (basename target_dir)))
            \<and> (\<forall>f \<in> set data_file_names.
                  \<exists>c. open_read w (target_dir @ ''/'' @ f) = Inr c
                     \<and> (if snd (splitext f) = ''.json''
                         then \<exists>b v. c = Bytes b \<and> json_load js b = Some v
                                   \<and> map_of d f = Some (FVal v)
                         else map_of d f = Some (FBinary c)))"
    by blast
qed

theorem mongo_save_tar_document_witness:
  "isdir w_models ''models/model_v1''
   \<and> open_read w_models ''models/model_v1/metadata.json'' = Inr (Bytes ''{\"version\":1}'')
   \<and> open_read w_models ''models/model_v1/ner/model'' = Inr (Bytes ''weights'')
   \<and> mongo_save_tar json_fragment mongo_models ''models/model_v1'' w_models = (Inr (), w_saved_mongo)
   \<and> mongo w_saved_mongo (PStr ''mongodb://host/db'', PStr ''models'') = [model_v1_document]
   \<and> map_of model_v1_document ''model_name'' = Some (FVal (PStr ''model_v1''))
   \<and> map_of model_v1_document ''metadata.json'' = Some (FVal (PDict [(''version'', PInt 1)]))
   \<and> map_of model_v1_document ''ner/model'' = Some (FBinary (Bytes ''weights''))"
proof -
  have dir: "isdir w_models ''models/model_v1''"
    by (simp add: fs_eval w_models_def)
  have files: "\<forall>f \<in> set data_file_names.
            \<exists>c. open_read w_models (''models/model_v1'' @ ''/'' @ f) = Inr c
               \<and> (snd (splitext f) = ''.json'' \<longrightarrow> decodes json_fragment c)"
    by (simp add: data_file_names_def decodes_def json_eval fs_eval w_models_def)
  note t = mongo_save_tar_document
             [of w_models "''models/model_v1''" json_fragment mongo_models "()" w_saved_mongo]
  from t dir files
  have "\<exists>w'. mongo_save_tar json_fragment mongo_models ''models/model_v1'' w_models = (Inr (), w')"
    by blast
  moreover from t mongo_save_models
  have "\<exists>d. w_saved_mongo
        = w_models\<lparr>mongo := (mongo w_models)((mongo_uri mongo_models, collection_name mongo_models)
                     := mongo w_models (mongo_uri mongo_models, collection_name mongo_models) @ [d]),
                   calls := calls w_models
                      @ [MongoInsert (mongo_uri mongo_models) (collection_name mongo_models)]\<rparr>
          \<and> map_of d ''model_name'' = Some (FVal (PStr (basename ''models/model_v1'')))"
    by blast
  moreover have "open_read w_models ''models/model_v1/metadata.json'' = Inr (Bytes ''{\"version\":1}'')"
    and "open_read w_models ''models/model_v1/ner/model'' = Inr (Bytes ''weights'')"
    by (simp_all add: fs_eval w_models_def)
  ultimately show ?thesis
    using dir mongo_save_models
    by (simp add: w_saved_mongo_def model_v1_document_def)
qed

text \<open>
  Claim C7, as stated, fails on the kind of the error: the data files are read in the
  order of the list, and a \<open>.json\<close> file that json.load refuses ends the save before a
  later missing file is looked for. In /home/models/broken the file ner/model is missing,
  yet save_tar raises the ValueError of json.load for metadata.json, not a read error.
\<close>

theorem mongo_save_tar_missing_file_other_error:
  "isdir w_broken ''models/broken''
   \<and> ''ner/model'' \<in> set data_file_names
   \<and> open_read w_broken (''models/broken'' @ ''/'' @ ''ner/model'') = Inl OSError
   \<and> mongo_save_tar json_fragment mongo_models ''models/broken'' w_broken
       = (Inl JSONDecodeError, w_broken)
   \<and> JSONDecodeError \<noteq> OSError"
  using mongo_save_broken
  by (simp add: data_file_names_def fs_eval w_broken_def)

text \<open>
  Claim C7, amended. When the directory exists and a data file is missing, save_tar of
  the document store raises and leaves the world as it found it: no insert is sent
  and no document, whole or partial, is stored. The error is the read error of the first
  missing file, unless a \<open>.json\<close> file that is there is no JSON; then it may be the
  ValueError of json.load for such a file. When every \<open>.json\<close> file that is there
  holds JSON, it is the read error.
\<close>

theorem mongo_save_tar_missing_file:
  "isdir w target_dir
     \<and> (\<exists>f \<in> set data_file_names. \<forall>c. open_read w (target_dir @ ''/'' @ f) \<noteq> Inr c)
   \<longrightarrow> (\<exists>e. mongo_save_tar js m target_dir w = (Inl e, w)
          \<and> (e = OSError
              \<or> (e = JSONDecodeError
                  \<and> (\<exists>f \<in> set data_file_names. snd (splitext f) = ''.json''
                        \<and> (\<exists>c. open_read w (target_dir @ ''/'' @ f) = Inr c
                              \<and> \<not> decodes js c))))
          \<and> ((\<forall>f \<in> set data_file_names. \<forall>c.
                  snd (splitext f) = ''.json'' \<and> open_read w (target_dir @ ''/'' @ f) = Inr c
                  \<longrightarrow> decodes js c)
               \<longrightarrow> e = OSError))"
proof
  assume a: "isdir w target_dir
     \<and> (\<exists>f \<in> set data_file_names. \<forall>c. open_read w (target_dir @ ''/'' @ f) \<noteq> Inr c)"
  let ?d0 = "[(''model_name'', FVal (PStr (basename target_dir)))]"
  from a obtain e where rd: "read_data_files js target_dir data_file_names ?d0 w = Inl e"
    using read_data_files_missing by blast
  with a have run: "mongo_save_tar js m target_dir w = (Inl e, w)"
    by (simp add: mongo_save_tar_def Let_def)
  note k = read_data_files_Inl[OF rd]
  from k have 1: "e = OSError
              \<or> (e = JSONDecodeError
                  \<and> (\<exists>f \<in> set data_file_names. snd (splitext f) = ''.json''
                        \<and> (\<exists>c. open_read w (target_dir @ ''/'' @ f) = Inr c
                              \<and> \<not> decodes js c)))"
    by blast
  from k have 2: "(\<forall>f \<in> set data_file_names. \<forall>c.
                  snd (splitext f) = ''.json'' \<and> open_read w (target_dir @ ''/'' @ f) = Inr c
                  \<longrightarrow> decodes js c)
               \<longrightarrow> e = OSError"
    by blast
  from run 1 2 show "\<exists>e. mongo_save_tar js m target_dir w = (Inl e, w)
          \<and> (e = OSError
              \<or> (e = JSONDecodeError
                  \<and> (\<exists>f \<in> set data_file_names. snd (splitext f) = ''.json''
                        \<and> (\<exists>c. open_read w (target_dir @ ''/'' @ f) = Inr c
                              \<and> \<not> decodes js c))))
          \<and> ((\<forall>f \<in> set data_file_names. \<forall>c.
                  snd (splitext f) = ''.json'' \<and> open_read w (target_dir @ ''/'' @ f) = Inr c
                  \<longrightarrow> decodes js c)
               \<longrightarrow> e = OSError)"
    by blast
qed

theorem mongo_save_tar_missing_file_witness:
  "isdir w_home ''/home''
   \<and> ''intent_classifier.pkl'' \<in> set data_file_names
   \<and> open_read w_home (''/home'' @ ''/'' @ ''intent_classifier.pkl'') = Inl OSError
   \<and> mongo_save_tar json_fragment mongo_models ''/home'' w_home = (Inl OSError, w_home)
   \<and> isdir w_broken ''models/broken''
   \<and> open_read w_broken (''models/broken'' @ ''/'' @ ''ner/model'') = Inl OSError
   \<and> fst (mongo_save_tar json_fragment mongo_models ''models/broken'' w_broken) \<noteq> Inr ()
   \<and> snd (mongo_save_tar json_fragment mongo_models ''models/broken'' w_broken) = w_broken"
proof -
  have dir: "isdir w_home ''/home''"
    by (simp add: fs_eval w_home_def)
  have f: "''intent_classifier.pkl'' \<in> set data_file_names"
    by (simp add: data_file_names_def)
  have miss: "open_read w_home (''/home'' @ ''/'' @ ''intent_classifier.pkl'') = Inl OSError"
    by (simp add: fs_eval w_home_def)
  then have m': "\<forall>c. open_read w_home (''/home'' @ ''/'' @ ''intent_classifier.pkl'') \<noteq> Inr c"
    by simp
  have ok: "\<forall>f \<in> set data_file_names. \<forall>c.
              snd (splitext f) = ''.json'' \<and> open_read w_home (''/home'' @ ''/'' @ f) = Inr c
              \<longrightarrow> decodes json_fragment c"
    by (simp add: data_file_names_def fs_eval w_home_def)
  from mongo_save_tar_missing_file [of w_home "''/home''" json_fragment mongo_models]
       dir f m' ok
  have 1: "mongo_save_tar json_fragment mongo_models ''/home'' w_home = (Inl OSError, w_home)"
    by blast
  have dir2: "isdir w_broken ''models/broken''"
    by (simp add: fs_eval w_broken_def)
  have f2: "''ner/model'' \<in> set data_file_names"
    by (simp add: data_file_names_def)
  have miss2: "open_read w_broken (''models/broken'' @ ''/'' @ ''ner/model'') = Inl OSError"
    by (simp add: fs_eval w_broken_def)
  then have m2: "\<forall>c. open_read w_broken (''models/broken'' @ ''/'' @ ''ner/model'') \<noteq> Inr c"
    by simp
  from mongo_save_tar_missing_file [of w_broken "''models/broken''" json_fragment mongo_models]
       dir2 f2 m2
  have 2: "\<exists>e. mongo_save_tar json_fragment mongo_models ''models/broken'' w_broken = (Inl e, w_broken)"
    by blast
  from dir f miss 1 dir2 miss2 2 show ?thesis by auto
qed

text \<open>
  Claim C9, as stated, fails when the archive has a member that is extracted to the
  path of the downloaded archive itself: the member replaces it. In /home, with the
  working directory as data directory, the fetch of a.tar.gz returns, and a.tar.gz then
  holds the five bytes of its member, not the archive that was downloaded.
\<close>

theorem fetch_may_replace_downloaded_archive:
  "s3 w_self (aws_bucket_name aws_here, ''a.tar.gz'') = Some (TarGz self_members)
   \<and> fst (aws_fetch_and_extract aws_here ''a.tar.gz'' w_self) = Inr ()
   \<and> lookup (fs (snd (aws_fetch_and_extract aws_here ''a.tar.gz'' w_self))) [''home'', ''a.tar.gz'']
       = Some (File (Bytes ''hello''))
   \<and> File (Bytes ''hello'') \<noteq> File (TarGz self_members)"
  using aws_fetch_self by (simp add: w_self_def aws_here_def)

text \<open>
  Claim C9, amended. A fetch of an object store that returns has downloaded the archive
  of that name into the local file of that name and extracted it: the archive is still
  there afterwards unless one of its members was extracted to that very path; every
  member is at its target (when no two members share one), and the target of a member
  with a plain name is the data directory followed by the name; any other path is as
  before, except that directories missing above a target were created. The working
  directory and the stores are as before, and the one request sent is the download.
\<close>

theorem fetch_leaves_archive_and_tree:
  "(aws_fetch_and_extract a filename w = (Inr u, w') \<longrightarrow>
      (\<exists>ms. s3 w (aws_bucket_name a, filename) = Some (TarGz ms)
         \<and> (abspath (cwd w) filename \<notin> set (extraction_targets w (aws_data_dir a) ms) \<longrightarrow>
               lookup (fs w') (abspath (cwd w) filename) = Some (File (TarGz ms)))
         \<and> (distinct (extraction_targets w (aws_data_dir a) ms) \<longrightarrow>
               (\<forall>d m. aws_data_dir a = PStr d \<and> m \<in> set ms \<longrightarrow>
                  lookup (fs w') (norm_from (abspath (cwd w) d) (fst m)) = Some (snd m)))
         \<and> (\<forall>d m. aws_data_dir a = PStr d \<and> m \<in> set ms \<and> plain (fst m) \<longrightarrow>
               norm_from (abspath (cwd w) d) (fst m) = abspath (cwd w) d @ fst m)
         \<and> (\<forall>p. p \<noteq> abspath (cwd w) filename \<longrightarrow>
               lookup (fs w') p = lookup (fs w) p
               \<or> p \<in> set (extraction_targets w (aws_data_dir a) ms)
               \<or> (lookup (fs w) p = None \<and> lookup (fs w') p = Some Dir
                   \<and> (\<exists>tg \<in> set (extraction_targets w (aws_data_dir a) ms). strict_prefix p tg)))
         \<and> cwd w' = cwd w \<and> s3 w' = s3 w \<and> gcs w' = gcs w \<and> mongo w' = mongo w
         \<and> calls w' = calls w @ [S3Download (aws_bucket_name a) filename]))
   \<and> (gcs_fetch_and_extract g filename w = (Inr u, w') \<longrightarrow>
      (\<exists>ms. gcs w (gcs_bucket_name g, filename) = Some (TarGz ms)
         \<and> (abspath (cwd w) filename \<notin> set (extraction_targets w (gcs_data_dir g) ms) \<longrightarrow>
               lookup (fs w') (abspath (cwd w) filename) = Some (File (TarGz ms)))
         \<and> (distinct (extraction_targets w (gcs_data_dir g) ms) \<longrightarrow>
               (\<forall>d m. gcs_data_dir g = PStr d \<and> m \<in> set ms \<longrightarrow>
                  lookup (fs w') (norm_from (abspath (cwd w) d) (fst m)) = Some (snd m)))
         \<and> (\<forall>d m. gcs_data_dir g = PStr d \<and> m \<in> set ms \<and> plain (fst m) \<longrightarrow>
               norm_from (abspath (cwd w) d) (fst m) = abspath (cwd w) d @ fst m)
         \<and> (\<forall>p. p \<noteq> abspath (cwd w) filename \<longrightarrow>
               lookup (fs w') p = lookup (fs w) p
               \<or> p \<in> set (extraction_targets w (gcs_data_dir g) ms)
               \<or> (lookup (fs w) p = None \<and> lookup (fs w') p = Some Dir
                   \<and> (\<exists>tg \<in> set (extraction_targets w (gcs_data_dir g) ms). strict_prefix p tg)))
         \<and> cwd w' = cwd w \<and> s3 w' = s3 w \<and> gcs w' = gcs w \<and> mongo w' = mongo w
         \<and> calls w' = calls w @ [GCSDownload (gcs_bucket_name g) filename]))"
proof (intro conjI impI)
  assume f: "aws_fetch_and_extract a filename w = (Inr u, w')"
  from aws_fetch_Inr[OF f] obtain ms where
    b: "s3 w (aws_bucket_name a, filename) = Some (TarGz ms)"
    and ap: "abspath (cwd w) filename \<noteq> []"
    and fr: "cwd w' = cwd w \<and> s3 w' = s3 w \<and> gcs w' = gcs w \<and> mongo w' = mongo w
         \<and> calls w' = calls w @ [S3Download (aws_bucket_name a) filename]"
    and ex: "(case aws_data_dir a of
                 PStr d \<Rightarrow>
                   extract_members (abspath (cwd w) d) ms
                     ((abspath (cwd w) filename, File (TarGz ms))
                        # (abspath (cwd w) filename, File (Bytes [])) # fs w) = (None, fs w')
               | _ \<Rightarrow> ms = [] \<and> fs w' = (abspath (cwd w) filename, File (TarGz ms))
                                          # (abspath (cwd w) filename, File (Bytes [])) # fs w)"
    by blast
  note ff = fetched_files[OF ex refl ap]
  have pl: "\<forall>d m. aws_data_dir a = PStr d \<and> m \<in> set ms \<and> plain (fst m) \<longrightarrow>
               norm_from (abspath (cwd w) d) (fst m) = abspath (cwd w) d @ fst m"
    by (simp add: norm_from_plain)
  from b ff pl fr show "(\<exists>ms. s3 w (aws_bucket_name a, filename) = Some (TarGz ms)
         \<and> (abspath (cwd w) filename \<notin> set (extraction_targets w (aws_data_dir a) ms) \<longrightarrow>
               lookup (fs w') (abspath (cwd w) filename) = Some (File (TarGz ms)))
         \<and> (distinct (extraction_targets w (aws_data_dir a) ms) \<longrightarrow>
               (\<forall>d m. aws_data_dir a = PStr d \<and> m \<in> set ms \<longrightarrow>
                  lookup (fs w') (norm_from (abspath (cwd w) d) (fst m)) = Some (snd m)))
         \<and> (\<forall>d m. aws_data_dir a = PStr d \<and> m \<in> set ms \<and> plain (fst m) \<longrightarrow>
               norm_from (abspath (cwd w) d) (fst m) = abspath (cwd w) d @ fst m)
         \<and> (\<forall>p. p \<noteq> abspath (cwd w) filename \<longrightarrow>
               lookup (fs w') p = lookup (fs w) p
               \<or> p \<in> set (extraction_targets w (aws_data_dir a) ms)
               \<or> (lookup (fs w) p = None \<and> lookup (fs w') p = Some Dir
                   \<and> (\<exists>tg \<in> set (extraction_targets w (aws_data_dir a) ms). strict_prefix p tg)))
         \<and> cwd w' = cwd w \<and> s3 w' = s3 w \<and> gcs w' = gcs w \<and> mongo w' = mongo w
         \<and> calls w' = calls w @ [S3Download (aws_bucket_name a) filename])"
    by blast
next
  assume f: "gcs_fetch_and_extract g filename w = (Inr u, w')"
  from gcs_fetch_Inr[OF f] obtain ms where
    b: "gcs w (gcs_bucket_name g, filename) = Some (TarGz ms)"
    and ap: "abspath (cwd w) filename \<noteq> []"
    and fr: "cwd w' = cwd w \<and> s3 w' = s3 w \<and> gcs w' = gcs w \<and> mongo w' = mongo w
         \<and> calls w' = calls w @ [GCSDownload (gcs_bucket_name g) filename]"
    and ex: "(case gcs_data_dir g of
                 PStr d \<Rightarrow>
                   extract_members (abspath (cwd w) d) ms
                     ((abspath (cwd w) filename, File (TarGz ms))
                        # (abspath (cwd w) filename, File (Bytes [])) # fs w) = (None, fs w')
               | _ \<Rightarrow> ms = [] \<and> fs w' = (abspath (cwd w) filename, File (TarGz ms))
                                          # (abspath (cwd w) filename, File (Bytes [])) # fs w)"
    by blast
  note ff = fetched_files[OF ex refl ap]
  have pl: "\<forall>d m. gcs_data_dir g = PStr d \<and> m \<in> set ms \<and> plain (fst m) \<longrightarrow>
               norm_from (abspath (cwd w) d) (fst m) = abspath (cwd w) d @ fst m"
    by (simp add: norm_from_plain)
  from b ff pl fr show "(\<exists>ms. gcs w (gcs_bucket_name g, filename) = Some (TarGz ms)
         \<and> (abspath (cwd w) filename \<notin> set (extraction_targets w (gcs_data_dir g) ms) \<longrightarrow>
               lookup (fs w') (abspath (cwd w) filename) = Some (File (TarGz ms)))
         \<and> (distinct (extraction_targets w (gcs_data_dir g) ms) \<longrightarrow>
               (\<forall>d m. gcs_data_dir g = PStr d \<and> m \<in> set ms \<longrightarrow>
                  lookup (fs w') (norm_from (abspath (cwd w) d) (fst m)) = Some (snd m)))
         \<and> (\<forall>d m. gcs_data_dir g = PStr d \<and> m \<in> set ms \<and> plain (fst m) \<longrightarrow>
               norm_from (abspath (cwd w) d) (fst m) = abspath (cwd w) d @ fst m)
         \<and> (\<forall>p. p \<noteq> abspath (cwd w) filename \<longrightarrow>
               lookup (fs w') p = lookup (fs w) p
               \<or> p \<in> set (extraction_targets w (gcs_data_dir g) ms)
               \<or> (lookup (fs w) p = None \<and> lookup (fs w') p = Some Dir
                   \<and> (\<exists>tg \<in> set (extraction_targets w (gcs_data_dir g) ms). strict_prefix p tg)))
         \<and> cwd w' = cwd w \<and> s3 w' = s3 w \<and> gcs w' = gcs w \<and> mongo w' = mongo w
         \<and> calls w' = calls w @ [GCSDownload (gcs_bucket_name g) filename])"
    by blast
qed

theorem fetch_leaves_archive_and_tree_witness:
  "fst (aws_fetch_and_extract aws_models ''model_v1.tar.gz'' w_saved_aws) = Inr ()
   \<and> lookup (fs (snd (aws_fetch_and_extract aws_models ''model_v1.tar.gz'' w_saved_aws)))
        [''home'', ''model_v1.tar.gz''] = Some (File (TarGz model_v1_members))
   \<and> lookup (fs (snd (aws_fetch_and_extract aws_models ''model_v1.tar.gz'' w_saved_aws)))
        [''home'', ''data'', ''model_v1'', ''ner'', ''model''] = Some (File (Bytes ''weights''))
   \<and> lookup (fs (snd (aws_fetch_and_extract aws_models ''model_v1.tar.gz'' w_saved_aws)))
        [''home'', ''models'', ''model_v1'', ''ner'', ''model'']
        = lookup (fs w_saved_aws) [''home'', ''models'', ''model_v1'', ''ner'', ''model'']
   \<and> fst (gcs_fetch_and_extract gcs_models ''model_v1.tar.gz'' w_saved_gcs) = Inr ()
   \<and> lookup (fs (snd (gcs_fetch_and_extract gcs_models ''model_v1.tar.gz'' w_saved_gcs)))
        [''home'', ''model_v1.tar.gz''] = Some (File (TarGz model_v1_members))
   \<and> lookup (fs (snd (gcs_fetch_and_extract gcs_models ''model_v1.tar.gz'' w_saved_gcs)))
        [''home'', ''data'', ''model_v1'', ''ner'', ''model''] = Some (File (Bytes ''weights''))
   \<and> lookup (fs (snd (gcs_fetch_and_extract gcs_models ''model_v1.tar.gz'' w_saved_gcs)))
        [''home'', ''models'', ''model_v1'', ''ner'', ''model'']
        = lookup (fs w_saved_gcs) [''home'', ''models'', ''model_v1'', ''ner'', ''model'']"
proof -
  let ?ra = "aws_fetch_and_extract aws_models ''model_v1.tar.gz'' w_saved_aws"
  let ?rg = "gcs_fetch_and_extract gcs_models ''model_v1.tar.gz'' w_saved_gcs"
  let ?ts = "[[''home'', ''data'', ''model_v1''],
              [''home'', ''data'', ''model_v1'', ''intent_classifier.pkl''],
              [''home'', ''data'', ''model_v1'', ''metadata.json''],
              [''home'', ''data'', ''model_v1'', ''entity_synonyms.json''],
              [''home'', ''data'', ''model_v1'', ''training_data.json''],
              [''home'', ''data'', ''model_v1'', ''ner''],
              [''home'', ''data'', ''model_v1'', ''ner'', ''config.json''],
              [''home'', ''data'', ''model_v1'', ''ner'', ''model'']]"
  have ra: "?ra = (Inr (), snd ?ra)" and rg: "?rg = (Inr (), snd ?rg)"
    using aws_fetch_models gcs_fetch_models by (simp_all add: prod_eq_iff)
  have ta: "extraction_targets w_saved_aws (aws_data_dir aws_models) model_v1_members = ?ts"
    and tg: "extraction_targets w_saved_gcs (gcs_data_dir gcs_models) model_v1_members = ?ts"
    by (simp_all add: extraction_targets_def model_v1_members_def aws_models_def gcs_models_def
          abspath_def w_saved_aws_def w_saved_gcs_def w_models_def)
  have pa: "abspath (cwd w_saved_aws) ''model_v1.tar.gz'' = [''home'', ''model_v1.tar.gz'']"
    and pg: "abspath (cwd w_saved_gcs) ''model_v1.tar.gz'' = [''home'', ''model_v1.tar.gz'']"
    and da: "abspath (cwd w_saved_aws) ''data'' = [''home'', ''data'']"
    and dg: "abspath (cwd w_saved_gcs) ''data'' = [''home'', ''data'']"
    by (simp_all add: abspath_def w_saved_aws_def w_saved_gcs_def w_models_def)
  have sa: "s3 w_saved_aws (aws_bucket_name aws_models, ''model_v1.tar.gz'') = Some (TarGz model_v1_members)"
    and sg: "gcs w_saved_gcs (gcs_bucket_name gcs_models, ''model_v1.tar.gz'') = Some (TarGz model_v1_members)"
    by (simp_all add: w_saved_aws_def w_saved_gcs_def aws_models_def gcs_models_def)
  have dd: "aws_data_dir aws_models = PStr ''data''" "gcs_data_dir gcs_models = PStr ''data''"
    by (simp_all add: aws_models_def gcs_models_def)
  have mem: "([''model_v1'', ''ner'', ''model''], File (Bytes ''weights'')) \<in> set model_v1_members"
    by (simp add: model_v1_members_def)
  have nm: "norm_from [''home'', ''data''] [''model_v1'', ''ner'', ''model'']
              = [''home'', ''data'', ''model_v1'', ''ner'', ''model'']"
    by simp
  note t = fetch_leaves_archive_and_tree
             [where a = aws_models and filename = "''model_v1.tar.gz''" and w = w_saved_aws
                and u = "()" and w' = "snd ?ra", THEN conjunct1]
  note t' = fetch_leaves_archive_and_tree
             [where g = gcs_models and filename = "''model_v1.tar.gz''" and w = w_saved_gcs
                and u = "()" and w' = "snd ?rg", THEN conjunct2]
  from t ra sa obtain ms where
    1: "Some (TarGz model_v1_members) = Some (TarGz ms)"
    and 2: "abspath (cwd w_saved_aws) ''model_v1.tar.gz'' \<notin> set (extraction_targets w_saved_aws (aws_data_dir aws_models) ms) \<longrightarrow>
               lookup (fs (snd ?ra)) (abspath (cwd w_saved_aws) ''model_v1.tar.gz'') = Some (File (TarGz ms))"
    and 3: "distinct (extraction_targets w_saved_aws (aws_data_dir aws_models) ms) \<longrightarrow>
               (\<forall>d m. aws_data_dir aws_models = PStr d \<and> m \<in> set ms \<longrightarrow>
                  lookup (fs (snd ?ra)) (norm_from (abspath (cwd w_saved_aws) d) (fst m)) = Some (snd m))"
    and 4: "\<forall>p. p \<noteq> abspath (cwd w_saved_aws) ''model_v1.tar.gz'' \<longrightarrow>
               lookup (fs (snd ?ra)) p = lookup (fs w_saved_aws) p
               \<or> p \<in> set (extraction_targets w_saved_aws (aws_data_dir aws_models) ms)
               \<or> (lookup (fs w_saved_aws) p = None \<and> lookup (fs (snd ?ra)) p = Some Dir
                   \<and> (\<exists>tg \<in> set (extraction_targets w_saved_aws (aws_data_dir aws_models) ms). strict_prefix p tg))"
    by auto
  from 1 have ms: "ms = model_v1_members" by simp
  from 2 have a1: "lookup (fs (snd ?ra)) [''home'', ''model_v1.tar.gz''] = Some (File (TarGz model_v1_members))"
    unfolding ms ta pa by simp
  have "distinct (extraction_targets w_saved_aws (aws_data_dir aws_models) model_v1_members)"
    unfolding ta by simp
  with 3 dd(1) mem
  have "lookup (fs (snd ?ra)) (norm_from (abspath (cwd w_saved_aws) ''data'')
           (fst ([''model_v1'', ''ner'', ''model''], File (Bytes ''weights''))))
         = Some (snd ([''model_v1'', ''ner'', ''model''], File (Bytes ''weights'')))"
    unfolding ms by blast
  hence a2: "lookup (fs (snd ?ra)) [''home'', ''data'', ''model_v1'', ''ner'', ''model'']
                     = Some (File (Bytes ''weights''))"
    unfolding da by simp
  have l: "lookup (fs w_saved_aws) [''home'', ''models'', ''model_v1'', ''ner'', ''model''] \<noteq> None"
    by (simp add: lookup_def w_saved_aws_def w_models_def)
  from 4[rule_format, of "[''home'', ''models'', ''model_v1'', ''ner'', ''model'']"] l
  have a3: "lookup (fs (snd ?ra)) [''home'', ''models'', ''model_v1'', ''ner'', ''model'']
        = lookup (fs w_saved_aws) [''home'', ''models'', ''model_v1'', ''ner'', ''model'']"
    unfolding ms ta pa by simp
  from t' rg sg obtain ms' where
    1: "Some (TarGz model_v1_members) = Some (TarGz ms')"
    and 2: "abspath (cwd w_saved_gcs) ''model_v1.tar.gz'' \<notin> set (extraction_targets w_saved_gcs (gcs_data_dir gcs_models) ms') \<longrightarrow>
               lookup (fs (snd ?rg)) (abspath (cwd w_saved_gcs) ''model_v1.tar.gz'') = Some (File (TarGz ms'))"
    and 3: "distinct (extraction_targets w_saved_gcs (gcs_data_dir gcs_models) ms') \<longrightarrow>
               (\<forall>d m. gcs_data_dir gcs_models = PStr d \<and> m \<in> set ms' \<longrightarrow>
                  lookup (fs (snd ?rg)) (norm_from (abspath (cwd w_saved_gcs) d) (fst m)) = Some (snd m))"
    and 4: "\<forall>p. p \<noteq> abspath (cwd w_saved_gcs) ''model_v1.tar.gz'' \<longrightarrow>
               lookup (fs (snd ?rg)) p = lookup (fs w_saved_gcs) p
               \<or> p \<in> set (extraction_targets w_saved_gcs (gcs_data_dir gcs_models) ms')
               \<or> (lookup (fs w_saved_gcs) p = None \<and> lookup (fs (snd ?rg)) p = Some Dir
                   \<and> (\<exists>tg \<in> set (extraction_targets w_saved_gcs (gcs_data_dir gcs_models) ms'). strict_prefix p tg))"
    by auto
  from 1 have ms': "ms' = model_v1_members" by simp
  from 2 have g1: "lookup (fs (snd ?rg)) [''home'', ''model_v1.tar.gz''] = Some (File (TarGz model_v1_members))"
    unfolding ms' tg pg by simp
  have "distinct (extraction_targets w_saved_gcs (gcs_data_dir gcs_models) model_v1_members)"
    unfolding tg by simp
  with 3 dd(2) mem
  have "lookup (fs (snd ?rg)) (norm_from (abspath (cwd w_saved_gcs) ''data'')
           (fst ([''model_v1'', ''ner'', ''model''], File (Bytes ''weights''))))
         = Some (snd ([''model_v1'', ''ner'', ''model''], File (Bytes ''weights'')))"
    unfolding ms' by blast
  hence g2: "lookup (fs (snd ?rg)) [''home'', ''data'', ''model_v1'', ''ner'', ''model'']
                     = Some (File (Bytes ''weights''))"
    unfolding dg by simp
  have l': "lookup (fs w_saved_gcs) [''home'', ''models'', ''model_v1'', ''ner'', ''model''] \<noteq> None"
    by (simp add: lookup_def w_saved_gcs_def w_models_def)
  from 4[rule_format, of "[''home'', ''models'', ''model_v1'', ''ner'', ''model'']"] l'
  have g3: "lookup (fs (snd ?rg)) [''home'', ''models'', ''model_v1'', ''ner'', ''model'']
        = lookup (fs w_saved_gcs) [''home'', ''models'', ''model_v1'', ''ner'', ''model'']"
    unfolding ms' tg pg by simp
  from aws_fetch_models gcs_fetch_models a1 a2 a3 g1 g2 g3 show ?thesis by simp
qed

end
